theory Spec2Isabelle
  imports Main
begin

section \<open>Data model\<close>

text \<open>
  The notebook lifecycle of the backend: the Sequelize repository
  (\<^verbatim>\<open>services/repositories/sequelize-notebooks-repository.ts\<close>), the mappers between a
  stored row and the API entity (\<^verbatim>\<open>services/database/mappers/notebooks.ts\<close>) and the
  \<^verbatim>\<open>NotebookAPI\<close> controller.

  A nullable text column is a \<open>string option\<close> (\<open>None\<close> is SQL \<open>NULL\<close>), a \<^verbatim>\<open>Date\<close> is
  its number of milliseconds, and \<^verbatim>\<open>new Date()\<close> is the argument \<open>now\<close> of the function
  that reads the clock.
\<close>

type_synonym cell = "string option"
type_synonym date = int

text \<open>
  The Sequelize model declarations are not among the sources. Of the volunteer and class
  (\<^verbatim>\<open>Pep\<close>) tables only the key and the columns read by \<^verbatim>\<open>notebookModelToEntity\<close> are kept.
\<close>

record Volunteer =
  idvol :: int
  nome :: string
  e_mail :: string

record Pep =
  id_pep :: int
  directory :: string

text \<open>
  \<^verbatim>\<open>NotebookEntity\<close>, the object built by \<^verbatim>\<open>notebookModelToEntity\<close>.
  \<open>studentRegistration\<close> holds the result of JavaScript's \<^verbatim>\<open>Number(...)\<close>, whose type is
  the parameter \<open>'n\<close>.
\<close>

record 'n NotebookEntity =
  idcad :: int
  idvol :: "int option"
  idpep :: "int option"
  studentName :: cell
  studentRegistration :: 'n
  studentPrisonUnit :: cell
  evaluatorName :: string
  evaluatorEmail :: "string option"
  subject1 :: cell
  subject2 :: cell
  subject3 :: cell
  subject4 :: cell
  subject5 :: cell
  subject6 :: cell
  subject7 :: cell
  subject8 :: cell
  subject9 :: cell
  subject10 :: cell
  relevantContent :: cell
  a1 :: cell
  a2 :: cell
  a3 :: cell
  a4 :: cell
  a5 :: cell
  a6 :: cell
  a7 :: cell
  a8 :: cell
  a9 :: cell
  a10 :: cell
  a11 :: cell
  a12 :: cell
  a13 :: cell
  conclusion :: cell
  archivesExclusion :: bool
  evaluatedDate :: "date option"
  reservationDate :: "date option"
  notebookDirectory :: "string option"

text \<open>
  \<^verbatim>\<open>EvaluateNotebookEntity\<close>, the body of an evaluation request. Its declaration is not
  among the sources; it has the fields \<^verbatim>\<open>evaluateNotebookEntityToEvaluateNotebookModel\<close>
  reads, each one required and typed like the column it is written to.
\<close>

record EvaluateNotebookEntity =
  idvol :: int
  studentPrisonUnit :: string
  subject1 :: string
  subject2 :: string
  subject3 :: string
  subject4 :: string
  subject5 :: string
  subject6 :: string
  subject7 :: string
  subject8 :: string
  subject9 :: string
  subject10 :: string
  relevantContent :: string
  a1 :: string
  a2 :: string
  a3 :: string
  a4 :: string
  a5 :: string
  a6 :: string
  a7 :: string
  a8 :: string
  a9 :: string
  a10 :: string
  a11 :: string
  a12 :: string
  a13 :: string
  conclusion :: string
  archivesExclusion :: bool

text \<open>
  \<^verbatim>\<open>EvaluateNotebookModel\<close>: the columns assigned by an evaluation (a partial \<^verbatim>\<open>Notebook\<close>
  with exactly the keys the mapper produces).
\<close>

record EvaluateNotebookModel =
  idvol :: "int option"
  unidade_prisional_do_aluno :: cell
  tema_1 :: cell
  tema_2 :: cell
  tema_3 :: cell
  tema_4 :: cell
  tema_5 :: cell
  tema_6 :: cell
  tema_7 :: cell
  tema_8 :: cell
  tema_9 :: cell
  tema_10 :: cell
  conteudos_relevantes :: cell
  a1 :: cell
  a2 :: cell
  a3 :: cell
  a4 :: cell
  a5 :: cell
  a6 :: cell
  a7 :: cell
  a8 :: cell
  a9 :: cell
  a10 :: cell
  a11 :: cell
  a12 :: cell
  a13 :: cell
  conclusao_do_avaliador :: cell
  exclusao_de_arquivos_recebidos :: cell
  Carimbo_de_data_hora :: "date option"

text \<open>
  \<^verbatim>\<open>Notebook\<close>, a row of the notebook table as Sequelize loads it. The columns with
  spaces and accents are spelled with underscores:
  \<open>Carimbo_de_data_hora\<close> is \<^verbatim>\<open>'Carimbo de data/hora'\<close> (the evaluation timestamp),
  \<open>datareserva\<close> the reservation timestamp, \<open>idvol\<close> the reserving volunteer.
  \<open>volunteer\<close> and \<open>pep\<close> are not columns but the association properties of a loaded
  instance: every read below sets them and no write looks at them.
\<close>

record Notebook =
  idcad :: int
  idvol :: "int option"
  idpep :: "int option"
  nome_do_aluno :: cell
  numero_de_matricula_do_aluno :: cell
  unidade_prisional_do_aluno :: cell
  tema_1 :: cell
  tema_2 :: cell
  tema_3 :: cell
  tema_4 :: cell
  tema_5 :: cell
  tema_6 :: cell
  tema_7 :: cell
  tema_8 :: cell
  tema_9 :: cell
  tema_10 :: cell
  conteudos_relevantes :: cell
  a1 :: cell
  a2 :: cell
  a3 :: cell
  a4 :: cell
  a5 :: cell
  a6 :: cell
  a7 :: cell
  a8 :: cell
  a9 :: cell
  a10 :: cell
  a11 :: cell
  a12 :: cell
  a13 :: cell
  conclusao_do_avaliador :: cell
  exclusao_de_arquivos_recebidos :: cell
  Carimbo_de_data_hora :: "date option"
  datareserva :: "date option"
  volunteer :: "Volunteer option"
  pep :: "Pep option"

text \<open>The relational store: the three tables, in storage order.\<close>

record db =
  notebooks :: "Notebook list"
  volunteers :: "Volunteer list"
  peps :: "Pep list"

section \<open>Mappers\<close>

text \<open>
  \<^verbatim>\<open>notebookModelToEntity\<close>. \<open>Number\<close> stands for JavaScript's \<^verbatim>\<open>Number(...)\<close> applied to the
  registration column; \<^verbatim>\<open>notebook.volunteer?.nome ?? ''\<close> is the empty string when the
  volunteer was not loaded.
\<close>

definition notebookModelToEntity :: "(cell \<Rightarrow> 'n) \<Rightarrow> Notebook \<Rightarrow> 'n NotebookEntity" where
  "notebookModelToEntity Number notebook =
   \<lparr>NotebookEntity.idcad = Notebook.idcad notebook,
     idvol = Notebook.idvol notebook,
     idpep = Notebook.idpep notebook,
     studentName = nome_do_aluno notebook,
     studentRegistration = Number (numero_de_matricula_do_aluno notebook),
     studentPrisonUnit = Notebook.unidade_prisional_do_aluno notebook,
     evaluatorName = (case volunteer notebook of None \<Rightarrow> [] | Some v \<Rightarrow> nome v),
     evaluatorEmail = map_option e_mail (volunteer notebook),
     subject1 = tema_1 notebook,
     subject2 = tema_2 notebook,
     subject3 = tema_3 notebook,
     subject4 = tema_4 notebook,
     subject5 = tema_5 notebook,
     subject6 = tema_6 notebook,
     subject7 = tema_7 notebook,
     subject8 = tema_8 notebook,
     subject9 = tema_9 notebook,
     subject10 = tema_10 notebook,
     relevantContent = Notebook.conteudos_relevantes notebook,
     a1 = Notebook.a1 notebook,
     a2 = Notebook.a2 notebook,
     a3 = Notebook.a3 notebook,
     a4 = Notebook.a4 notebook,
     a5 = Notebook.a5 notebook,
     a6 = Notebook.a6 notebook,
     a7 = Notebook.a7 notebook,
     a8 = Notebook.a8 notebook,
     a9 = Notebook.a9 notebook,
     a10 = Notebook.a10 notebook,
     a11 = Notebook.a11 notebook,
     a12 = Notebook.a12 notebook,
     a13 = Notebook.a13 notebook,
     conclusion = Notebook.conclusao_do_avaliador notebook,
     archivesExclusion = (Notebook.exclusao_de_arquivos_recebidos notebook = Some ''SIM''),
     evaluatedDate = Notebook.Carimbo_de_data_hora notebook,
     reservationDate = datareserva notebook,
     notebookDirectory = map_option directory (pep notebook)\<rparr>"

text \<open>The second string of the source's conditional for the exclusion flag, the Portuguese for no: \<open>N\<close>, the code unit U+00C3 (A with a tilde), \<open>O\<close>.\<close>

definition NAO :: string where
  "NAO = [CHR ''N'', CHR 0xC3, CHR ''O'']"

text \<open>\<^verbatim>\<open>evaluateNotebookEntityToEvaluateNotebookModel\<close>; \<open>now\<close> is \<^verbatim>\<open>new Date()\<close>.\<close>

definition evaluateNotebookEntityToEvaluateNotebookModel ::
    "date \<Rightarrow> EvaluateNotebookEntity \<Rightarrow> EvaluateNotebookModel" where
  "evaluateNotebookEntityToEvaluateNotebookModel now notebook =
   \<lparr>EvaluateNotebookModel.idvol = Some (EvaluateNotebookEntity.idvol notebook),
     unidade_prisional_do_aluno = Some (EvaluateNotebookEntity.studentPrisonUnit notebook),
     tema_1 = Some (subject1 notebook),
     tema_2 = Some (subject2 notebook),
     tema_3 = Some (subject3 notebook),
     tema_4 = Some (subject4 notebook),
     tema_5 = Some (subject5 notebook),
     tema_6 = Some (subject6 notebook),
     tema_7 = Some (subject7 notebook),
     tema_8 = Some (subject8 notebook),
     tema_9 = Some (subject9 notebook),
     tema_10 = Some (subject10 notebook),
     conteudos_relevantes = Some (EvaluateNotebookEntity.relevantContent notebook),
     EvaluateNotebookModel.a1 = Some (EvaluateNotebookEntity.a1 notebook),
     EvaluateNotebookModel.a2 = Some (EvaluateNotebookEntity.a2 notebook),
     EvaluateNotebookModel.a3 = Some (EvaluateNotebookEntity.a3 notebook),
     EvaluateNotebookModel.a4 = Some (EvaluateNotebookEntity.a4 notebook),
     EvaluateNotebookModel.a5 = Some (EvaluateNotebookEntity.a5 notebook),
     EvaluateNotebookModel.a6 = Some (EvaluateNotebookEntity.a6 notebook),
     EvaluateNotebookModel.a7 = Some (EvaluateNotebookEntity.a7 notebook),
     EvaluateNotebookModel.a8 = Some (EvaluateNotebookEntity.a8 notebook),
     EvaluateNotebookModel.a9 = Some (EvaluateNotebookEntity.a9 notebook),
     EvaluateNotebookModel.a10 = Some (EvaluateNotebookEntity.a10 notebook),
     EvaluateNotebookModel.a11 = Some (EvaluateNotebookEntity.a11 notebook),
     EvaluateNotebookModel.a12 = Some (EvaluateNotebookEntity.a12 notebook),
     EvaluateNotebookModel.a13 = Some (EvaluateNotebookEntity.a13 notebook),
     conclusao_do_avaliador = Some (EvaluateNotebookEntity.conclusion notebook),
     exclusao_de_arquivos_recebidos =
       Some (if EvaluateNotebookEntity.archivesExclusion notebook then ''SIM'' else NAO),
     Carimbo_de_data_hora = Some now\<rparr>"

section \<open>The Sequelize calls\<close>

text \<open>
  \<^verbatim>\<open>Notebook.update(values, { where })\<close>: every row the predicate matches is assigned, the
  others are kept, and the first component of the answer is the number of rows affected.
\<close>

definition Notebook_update ::
    "(Notebook \<Rightarrow> Notebook) \<Rightarrow> (Notebook \<Rightarrow> bool) \<Rightarrow> Notebook list \<Rightarrow> nat \<times> Notebook list" where
  "Notebook_update assign wh rows =
     (length (filter wh rows), map (\<lambda>r. if wh r then assign r else r) rows)"

text \<open>The assignment of the columns of an \<^verbatim>\<open>EvaluateNotebookModel\<close> to a row.\<close>

definition assign_values :: "EvaluateNotebookModel \<Rightarrow> Notebook \<Rightarrow> Notebook" where
  "assign_values vals r =
     r\<lparr>Notebook.idvol := EvaluateNotebookModel.idvol vals,
      unidade_prisional_do_aluno := EvaluateNotebookModel.unidade_prisional_do_aluno vals,
      tema_1 := EvaluateNotebookModel.tema_1 vals,
      tema_2 := EvaluateNotebookModel.tema_2 vals,
      tema_3 := EvaluateNotebookModel.tema_3 vals,
      tema_4 := EvaluateNotebookModel.tema_4 vals,
      tema_5 := EvaluateNotebookModel.tema_5 vals,
      tema_6 := EvaluateNotebookModel.tema_6 vals,
      tema_7 := EvaluateNotebookModel.tema_7 vals,
      tema_8 := EvaluateNotebookModel.tema_8 vals,
      tema_9 := EvaluateNotebookModel.tema_9 vals,
      tema_10 := EvaluateNotebookModel.tema_10 vals,
      conteudos_relevantes := EvaluateNotebookModel.conteudos_relevantes vals,
      a1 := EvaluateNotebookModel.a1 vals,
      a2 := EvaluateNotebookModel.a2 vals,
      a3 := EvaluateNotebookModel.a3 vals,
      a4 := EvaluateNotebookModel.a4 vals,
      a5 := EvaluateNotebookModel.a5 vals,
      a6 := EvaluateNotebookModel.a6 vals,
      a7 := EvaluateNotebookModel.a7 vals,
      a8 := EvaluateNotebookModel.a8 vals,
      a9 := EvaluateNotebookModel.a9 vals,
      a10 := EvaluateNotebookModel.a10 vals,
      a11 := EvaluateNotebookModel.a11 vals,
      a12 := EvaluateNotebookModel.a12 vals,
      a13 := EvaluateNotebookModel.a13 vals,
      conclusao_do_avaliador := EvaluateNotebookModel.conclusao_do_avaliador vals,
      exclusao_de_arquivos_recebidos := EvaluateNotebookModel.exclusao_de_arquivos_recebidos vals,
      Carimbo_de_data_hora := EvaluateNotebookModel.Carimbo_de_data_hora vals\<rparr>"

text \<open>
  The \<^verbatim>\<open>include\<close> option: \<^verbatim>\<open>volunteer\<close> and \<^verbatim>\<open>pep\<close> are the rows the foreign keys
  \<open>idvol\<close> and \<open>idpep\<close> point to, when there are such rows. An association that is not
  included stays undefined on the instance.
\<close>

definition include_volunteer :: "db \<Rightarrow> Notebook \<Rightarrow> Volunteer option" where
  "include_volunteer d r =
     (case Notebook.idvol r of None \<Rightarrow> None
      | Some i \<Rightarrow> find (\<lambda>v. Volunteer.idvol v = i) (volunteers d))"

definition include_pep :: "db \<Rightarrow> Notebook \<Rightarrow> Pep option" where
  "include_pep d r =
     (case Notebook.idpep r of None \<Rightarrow> None
      | Some i \<Rightarrow> find (\<lambda>p. id_pep p = i) (peps d))"

text \<open>\<^verbatim>\<open>Notebook.findOne\<close> with both associations, \<^verbatim>\<open>Notebook.findAll\<close> with \<^verbatim>\<open>pep\<close> only.\<close>

definition Notebook_findOne :: "db \<Rightarrow> (Notebook \<Rightarrow> bool) \<Rightarrow> Notebook option" where
  "Notebook_findOne d wh =
     map_option (\<lambda>r. r\<lparr>volunteer := include_volunteer d r, pep := include_pep d r\<rparr>)
       (find wh (notebooks d))"

definition Notebook_findAll :: "db \<Rightarrow> (Notebook \<Rightarrow> bool) \<Rightarrow> Notebook list" where
  "Notebook_findAll d wh =
     map (\<lambda>r. r\<lparr>volunteer := None, pep := include_pep d r\<rparr>) (filter wh (notebooks d))"

section \<open>SequelizeNotebookRepository\<close>

text \<open>
  Every method takes the store and, when it writes, returns the new store beside its
  result. A result \<open>None\<close> is the \<^verbatim>\<open>null\<close> of the source.
\<close>

definition getNotebookById :: "(cell \<Rightarrow> 'n) \<Rightarrow> db \<Rightarrow> int \<Rightarrow> 'n NotebookEntity option" where
  "getNotebookById Number d notebookId =
     map_option (notebookModelToEntity Number)
       (Notebook_findOne d (\<lambda>r. Notebook.idcad r = notebookId))"

definition saveNotebookEvaluation ::
    "(cell \<Rightarrow> 'n) \<Rightarrow> date \<Rightarrow> db \<Rightarrow> int \<Rightarrow> EvaluateNotebookEntity
      \<Rightarrow> 'n NotebookEntity option \<times> db" where
  "saveNotebookEvaluation Number now d notebookId notebookData =
     (let (numUpdates, rows) =
            Notebook_update
              (assign_values (evaluateNotebookEntityToEvaluateNotebookModel now notebookData))
              (\<lambda>r. Notebook.idcad r = notebookId \<and> Notebook.Carimbo_de_data_hora r = None)
              (notebooks d);
          d' = d\<lparr>notebooks := rows\<rparr>
      in (if numUpdates \<noteq> 0 then getNotebookById Number d' notebookId else None, d'))"

definition reserveNotebookForVolunteer ::
    "(cell \<Rightarrow> 'n) \<Rightarrow> date \<Rightarrow> db \<Rightarrow> int \<Rightarrow> int \<Rightarrow> 'n NotebookEntity option \<times> db" where
  "reserveNotebookForVolunteer Number now d idvol' notebookId =
     (let (updatedNotebooks, rows) =
            Notebook_update
              (\<lambda>r. r\<lparr>Notebook.idvol := Some idvol', datareserva := Some now\<rparr>)
              (\<lambda>r. Notebook.idcad r = notebookId \<and> datareserva r = None
                    \<and> Notebook.Carimbo_de_data_hora r = None)
              (notebooks d);
          d' = d\<lparr>notebooks := rows\<rparr>
      in (if updatedNotebooks \<noteq> 0 then getNotebookById Number d' notebookId else None, d'))"

definition getReservedNotebooksByIdVol :: "(cell \<Rightarrow> 'n) \<Rightarrow> db \<Rightarrow> int \<Rightarrow> 'n NotebookEntity list" where
  "getReservedNotebooksByIdVol Number d idvol' =
     map (notebookModelToEntity Number)
       (Notebook_findAll d
          (\<lambda>r. Notebook.idvol r = Some idvol' \<and> Notebook.Carimbo_de_data_hora r = None
                \<and> datareserva r = None))"

definition getAvailableNotebooks :: "(cell \<Rightarrow> 'n) \<Rightarrow> db \<Rightarrow> 'n NotebookEntity list" where
  "getAvailableNotebooks Number d =
     map (notebookModelToEntity Number)
       (Notebook_findAll d
          (\<lambda>r. datareserva r = None \<and> Notebook.Carimbo_de_data_hora r = None))"

definition countEvaluatedNotebooksByIdVol :: "db \<Rightarrow> int \<Rightarrow> nat" where
  "countEvaluatedNotebooksByIdVol d idvol' =
     length (filter (\<lambda>r. Notebook.idvol r = Some idvol' \<and> Notebook.Carimbo_de_data_hora r \<noteq> None)
               (notebooks d))"

section \<open>NotebookAPI\<close>

text \<open>
  The controller. A thrown \<^verbatim>\<open>ApiError\<close> is the left summand of the result, with its HTTP
  status and the name and message of the domain error it wraps.
\<close>

datatype DomainError = NotebookError string string | VolunteerError string string

datatype ApiError = ApiError int DomainError

record ReserveNotebookDataEntity =
  idvol :: int
  notebookId :: int

text \<open>The decimal text a template literal gives for an integer id.\<close>

fun String_nat :: "nat \<Rightarrow> string" where
  "String_nat n =
     (if n < 10 then [''0123456789'' ! n]
      else String_nat (n div 10) @ [''0123456789'' ! (n mod 10)])"

declare String_nat.simps [simp del]

definition String_int :: "int \<Rightarrow> string" where
  "String_int i = (if i < 0 then CHR ''-'' # String_nat (nat (- i)) else String_nat (nat i))"

text \<open>
  Modelled from the spec: \<^verbatim>\<open>VolunteerRepository.getVolunteerById\<close>, whose implementation
  (\<^verbatim>\<open>SequelizeVolunteerRepository\<close>) is not among the sources. The spec's external interface
  is "Volunteer existence/lookup by id (boolean/entity or not-found)": the volunteer with
  that id when the table has one, \<open>None\<close> otherwise.
\<close>

definition getVolunteerById :: "db \<Rightarrow> int \<Rightarrow> Volunteer option" where
  "getVolunteerById d i = find (\<lambda>v. Volunteer.idvol v = i) (volunteers d)"

text \<open>
  \<^verbatim>\<open>formatAvailableNotebookToTableRow\<close> (a helper that is not among the sources) is the
  parameter \<open>format\<close>.
\<close>

definition NotebookAPI_getAvailableNotebooksForEvalForIdVol ::
    "('n NotebookEntity \<Rightarrow> 'row) \<Rightarrow> (cell \<Rightarrow> 'n) \<Rightarrow> db \<Rightarrow> int \<Rightarrow> 'row list" where
  "NotebookAPI_getAvailableNotebooksForEvalForIdVol format Number d idvol' =
     (let availableNotebooks = getAvailableNotebooks Number d;
          reservedNotebooks = getReservedNotebooksByIdVol Number d idvol';
          volunteerAccessableNotebooks = reservedNotebooks @ availableNotebooks
      in map format volunteerAccessableNotebooks)"

definition NotebookAPI_saveNotebookEvaluation ::
    "(cell \<Rightarrow> 'n) \<Rightarrow> date \<Rightarrow> db \<Rightarrow> int \<Rightarrow> EvaluateNotebookEntity
      \<Rightarrow> (ApiError + 'n NotebookEntity) \<times> db" where
  "NotebookAPI_saveNotebookEvaluation Number now d nid notebookData =
     (case getNotebookById Number d nid of
        None \<Rightarrow>
          (Inl (ApiError 404 (NotebookError ''NOTEBOOK_NOT_FOUND''
                  (''Notebook with id '' @ String_int nid @ '' not found''))), d)
      | Some notebook \<Rightarrow>
          (case saveNotebookEvaluation Number now d nid notebookData of
             (None, d') \<Rightarrow>
               (Inl (ApiError 400 (NotebookError ''NOTEBOOK_ALREADY_EVALUATED_ERROR''
                       (''Notebook with id '' @ String_int nid @ '' already evaulated''))), d')
           | (Some evaluatedNotebook, d') \<Rightarrow> (Inr evaluatedNotebook, d')))"

definition NotebookAPI_reserveNotebookForVolunteer ::
    "('n NotebookEntity \<Rightarrow> 'row) \<Rightarrow> (cell \<Rightarrow> 'n) \<Rightarrow> date \<Rightarrow> db \<Rightarrow> ReserveNotebookDataEntity
      \<Rightarrow> (ApiError + 'row) \<times> db" where
  "NotebookAPI_reserveNotebookForVolunteer format Number now d reserveData =
     (let idvol' = ReserveNotebookDataEntity.idvol reserveData;
          nid = notebookId reserveData
      in case getVolunteerById d idvol' of
           None \<Rightarrow>
             (Inl (ApiError 412 (VolunteerError ''VOLUNTEER_NOT_FOUND''
                     (''Volunteer with id '' @ String_int idvol' @ '' not found''))), d)
         | Some volunteer' \<Rightarrow>
             (case getNotebookById Number d nid of
                None \<Rightarrow>
                  (Inl (ApiError 404 (NotebookError ''NOTEBOOK_NOT_FOUND''
                          (''Notebook with id '' @ String_int nid @ '' not found''))), d)
              | Some notebook \<Rightarrow>
                  (case reserveNotebookForVolunteer Number now d idvol' nid of
                     (None, d') \<Rightarrow>
                       (Inl (ApiError 400 (NotebookError ''NOTEBOOK_ALREADY_RESERVED_ERROR''
                               ''Notebook already reserved or already evaluated'')), d')
                   | (Some reservedNotebook, d') \<Rightarrow> (Inr (format reservedNotebook), d'))))"

section \<open>Sequences of repository operations\<close>

text \<open>
  The two transitions of the lifecycle as operations on the store, each with the clock
  value it reads, and the store after a sequence of them.
\<close>

text \<open>
  The store's effect does not depend on how the registration is converted; the operations
  are run with the conversion that keeps the column as it is.
\<close>

definition Number_cell :: "cell \<Rightarrow> cell" where
  "Number_cell c = c"

datatype operation =
    Claim date int int
  | Evaluate date int EvaluateNotebookEntity

fun exec :: "operation \<Rightarrow> db \<Rightarrow> db" where
  "exec (Claim now v nid) d = snd (reserveNotebookForVolunteer Number_cell now d v nid)"
| "exec (Evaluate now nid e) d = snd (saveNotebookEvaluation Number_cell now d nid e)"

fun run :: "operation list \<Rightarrow> db \<Rightarrow> db" where
  "run [] d = d"
| "run (x # xs) d = run xs (exec x d)"

section \<open>Example stores\<close>

text \<open>
  A notebook as the batch import leaves it (unreserved, unevaluated), an evaluation
  request, a store of two such notebooks with two volunteers, and the same store with a
  row that carries a volunteer but no reservation date.
\<close>

definition imported_notebook :: "int \<Rightarrow> Notebook" where
  "imported_notebook i =
   \<lparr>Notebook.idcad = i,
     idvol = None,
     idpep = Some 1,
     nome_do_aluno = Some ''Ana'',
     numero_de_matricula_do_aluno = Some ''1234'',
     unidade_prisional_do_aluno = Some ''P1'',
     tema_1 = Some ''Paz'',
     tema_2 = None,
     tema_3 = None,
     tema_4 = None,
     tema_5 = None,
     tema_6 = None,
     tema_7 = None,
     tema_8 = None,
     tema_9 = None,
     tema_10 = None,
     conteudos_relevantes = None,
     a1 = Some ''sim'',
     a2 = None,
     a3 = None,
     a4 = None,
     a5 = None,
     a6 = None,
     a7 = None,
     a8 = None,
     a9 = None,
     a10 = None,
     a11 = None,
     a12 = None,
     a13 = None,
     conclusao_do_avaliador = None,
     exclusao_de_arquivos_recebidos = None,
     Carimbo_de_data_hora = None,
     datareserva = None,
     volunteer = None,
     pep = None\<rparr>"

definition evaluation_by :: "int \<Rightarrow> EvaluateNotebookEntity" where
  "evaluation_by v =
   \<lparr>EvaluateNotebookEntity.idvol = v,
     studentPrisonUnit = ''P1'',
     subject1 = ''tema'',
     subject2 = ''tema'',
     subject3 = ''tema'',
     subject4 = ''tema'',
     subject5 = ''tema'',
     subject6 = ''tema'',
     subject7 = ''tema'',
     subject8 = ''tema'',
     subject9 = ''tema'',
     subject10 = ''tema'',
     relevantContent = ''nada'',
     a1 = ''ok'',
     a2 = ''ok'',
     a3 = ''ok'',
     a4 = ''ok'',
     a5 = ''ok'',
     a6 = ''ok'',
     a7 = ''ok'',
     a8 = ''ok'',
     a9 = ''ok'',
     a10 = ''ok'',
     a11 = ''ok'',
     a12 = ''ok'',
     a13 = ''ok'',
     conclusion = ''bom'',
     archivesExclusion = True\<rparr>"

definition db_imported :: db where
  "db_imported =
   \<lparr>notebooks = [imported_notebook 1, imported_notebook 2],
     volunteers = [\<lparr>Volunteer.idvol = 7, nome = ''Rui'', e_mail = ''rui@example.org''\<rparr>,
                   \<lparr>Volunteer.idvol = 8, nome = ''Bia'', e_mail = ''bia@example.org''\<rparr>],
     peps = [\<lparr>id_pep = 1, directory = ''turma-1''\<rparr>]\<rparr>"

definition db_legacy :: db where
  "db_legacy =
     db_imported\<lparr>notebooks := [(imported_notebook 1)\<lparr>Notebook.idvol := Some 7\<rparr>,
                                 imported_notebook 2]\<rparr>"

text \<open>
  The store after volunteer 7 has claimed notebook 2 at time 100, and a store in which
  that notebook has also been evaluated at time 900.
\<close>

definition db_claimed :: db where
  "db_claimed =
     db_imported\<lparr>notebooks := [imported_notebook 1,
        (imported_notebook 2)\<lparr>Notebook.idvol := Some 7, datareserva := Some 100\<rparr>]\<rparr>"

definition db_evaluated :: db where
  "db_evaluated =
     db_imported\<lparr>notebooks := [imported_notebook 1,
        (imported_notebook 2)\<lparr>Notebook.idvol := Some 7, datareserva := Some 100,
           Carimbo_de_data_hora := Some 900\<rparr>]\<rparr>"

section \<open>Conditional updates\<close>

lemma Notebook_update_count:
  "fst (Notebook_update f wh rows) \<noteq> 0 \<longleftrightarrow> (\<exists>r\<in>set rows. wh r)"
  by (auto simp: Notebook_update_def filter_empty_conv)

lemma Notebook_update_rows:
  "snd (Notebook_update f wh rows) = map (\<lambda>r. if wh r then f r else r) rows"
  by (simp add: Notebook_update_def)

lemma Notebook_update_no_match:
  "\<forall>r\<in>set rows. \<not> wh r \<Longrightarrow> snd (Notebook_update f wh rows) = rows"
  by (simp add: Notebook_update_def map_idI)

lemma map_no_match:
  "\<forall>r\<in>set rows. \<not> wh r \<Longrightarrow> map (\<lambda>r. if wh r then f r else r) rows = rows"
  by (induction rows) auto

lemma idcad_unique:
  "distinct (map Notebook.idcad rows) \<Longrightarrow> r \<in> set rows \<Longrightarrow> x \<in> set rows
    \<Longrightarrow> Notebook.idcad x = Notebook.idcad r \<Longrightarrow> x = r"
  by (meson distinct_map inj_on_eq_iff)

lemma find_idcad:
  "distinct (map Notebook.idcad rows) \<Longrightarrow> r \<in> set rows
    \<Longrightarrow> find (\<lambda>x. Notebook.idcad x = Notebook.idcad r) rows = Some r"
proof (induction rows)
  case Nil
  then show ?case by simp
next
  case (Cons a rows)
  then show ?case by (auto simp: image_iff)
qed

lemma find_idcad_map:
  "(\<And>x. Notebook.idcad (g x) = Notebook.idcad x)
    \<Longrightarrow> find (\<lambda>x. Notebook.idcad x = n) (map g rows)
        = map_option g (find (\<lambda>x. Notebook.idcad x = n) rows)"
  by (induction rows) auto

lemma find_None_idcad:
  "find (\<lambda>x. Notebook.idcad x = n) rows = None \<longleftrightarrow> (\<forall>r\<in>set rows. Notebook.idcad r \<noteq> n)"
  by (auto simp: find_None_iff)

lemma update_by_id:
  assumes "distinct (map Notebook.idcad rows)" "r \<in> set rows" "wh r"
    and "\<And>x. wh x \<Longrightarrow> Notebook.idcad x = Notebook.idcad r"
  shows "map (\<lambda>x. if wh x then f x else x) rows
       = map (\<lambda>x. if Notebook.idcad x = Notebook.idcad r then f x else x) rows"
proof (rule map_cong[OF refl])
  fix x assume "x \<in> set rows"
  then have "wh x \<longleftrightarrow> Notebook.idcad x = Notebook.idcad r"
    using assms idcad_unique by blast
  then show "(if wh x then f x else x) = (if Notebook.idcad x = Notebook.idcad r then f x else x)"
    by simp
qed


lemma include_volunteer_notebooks:
  "include_volunteer (d\<lparr>notebooks := rows\<rparr>) r = include_volunteer d r"
  by (simp add: include_volunteer_def split: option.splits)

lemma include_pep_notebooks:
  "include_pep (d\<lparr>notebooks := rows\<rparr>) r = include_pep d r"
  by (simp add: include_pep_def split: option.splits)

lemma getNotebookById_updated:
  assumes "distinct (map Notebook.idcad (notebooks d))" "r \<in> set (notebooks d)"
    and "\<And>x. Notebook.idcad (g x) = Notebook.idcad x"
  shows "getNotebookById Number (d\<lparr>notebooks := map g (notebooks d)\<rparr>) (Notebook.idcad r)
       = Some (notebookModelToEntity Number
           ((g r)\<lparr>volunteer := include_volunteer d (g r), pep := include_pep d (g r)\<rparr>))"
  using assms
  by (simp add: getNotebookById_def Notebook_findOne_def find_idcad_map find_idcad
        include_volunteer_notebooks include_pep_notebooks)


lemma getNotebookById_None:
  "getNotebookById Number d nid = None \<longleftrightarrow> (\<forall>r\<in>set (notebooks d). Notebook.idcad r \<noteq> nid)"
  by (auto simp: getNotebookById_def Notebook_findOne_def find_None_iff)

text \<open>
  A conditional update whose predicate fixes the id succeeds exactly when a row matches,
  and a rejected one leaves the store alone.
\<close>

lemma conditional_update_iff:
  fixes Number :: "cell \<Rightarrow> 'n"
  assumes wh_id: "\<And>x. wh x \<Longrightarrow> Notebook.idcad x = nid"
    and f_id: "\<And>x. Notebook.idcad (f x) = Notebook.idcad x"
    and d': "d' = d\<lparr>notebooks := snd (Notebook_update f wh (notebooks d))\<rparr>"
    and res: "res = (if fst (Notebook_update f wh (notebooks d)) \<noteq> 0
                     then getNotebookById Number d' nid else None)"
  shows "(res \<noteq> None \<longleftrightarrow> (\<exists>r\<in>set (notebooks d). wh r)) \<and> (res = None \<longrightarrow> d' = d)"
proof -
  let ?g = "\<lambda>r. if wh r then f r else r"
  have d'': "d' = d\<lparr>notebooks := map ?g (notebooks d)\<rparr>"
    using d' by (simp add: Notebook_update_rows)
  have res': "res = (if (\<exists>r\<in>set (notebooks d). wh r) then getNotebookById Number d' nid else None)"
    using res by (simp only: Notebook_update_count)
  have found: "getNotebookById Number d' nid \<noteq> None" if r: "r \<in> set (notebooks d)" "wh r" for r
  proof -
    have "?g r \<in> set (notebooks d')" using r(1) d'' by simp
    moreover have "Notebook.idcad (?g r) = nid" using r(2) wh_id f_id by simp
    ultimately have "\<not> (\<forall>x\<in>set (notebooks d'). Notebook.idcad x \<noteq> nid)" by blast
    then show ?thesis by (simp only: getNotebookById_None not_False_eq_True)
  qed
  have iff: "res \<noteq> None \<longleftrightarrow> (\<exists>r\<in>set (notebooks d). wh r)"
  proof
    assume "res \<noteq> None"
    then show "\<exists>r\<in>set (notebooks d). wh r" using res' by presburger
  next
    assume m: "\<exists>r\<in>set (notebooks d). wh r"
    then obtain r where "r \<in> set (notebooks d)" "wh r" by blast
    from found[OF this] show "res \<noteq> None" using res' m by simp
  qed
  have miss: "d' = d" if "res = None"
  proof -
    have "\<forall>r\<in>set (notebooks d). \<not> wh r" using iff that by blast
    then have "map ?g (notebooks d) = notebooks d" by (rule map_no_match)
    then show ?thesis using d'' by simp
  qed
  from iff miss show ?thesis by blast
qed

text \<open>
  A conditional update whose predicate fixes the id, on a table with unique ids, followed by
  the re-read of that id.
\<close>

lemma conditional_update:
  fixes Number :: "cell \<Rightarrow> 'n"
  assumes dist: "distinct (map Notebook.idcad (notebooks d))"
    and wh_id: "\<And>x. wh x \<Longrightarrow> Notebook.idcad x = nid"
    and f_id: "\<And>x. Notebook.idcad (f x) = Notebook.idcad x"
    and d': "d' = d\<lparr>notebooks := snd (Notebook_update f wh (notebooks d))\<rparr>"
    and res: "res = (if fst (Notebook_update f wh (notebooks d)) \<noteq> 0
                     then getNotebookById Number d' nid else None)"
  shows "(res \<noteq> None \<longleftrightarrow> (\<exists>r\<in>set (notebooks d). wh r))
       \<and> (\<forall>r\<in>set (notebooks d). wh r \<longrightarrow>
            d' = d\<lparr>notebooks :=
                     map (\<lambda>x. if Notebook.idcad x = nid then f x else x) (notebooks d)\<rparr>
            \<and> res = getNotebookById Number d' nid
            \<and> res = Some (notebookModelToEntity Number
                       ((f r)\<lparr>volunteer := include_volunteer d (f r),
                              pep := include_pep d (f r)\<rparr>)))
       \<and> (res = None \<longrightarrow> d' = d)"
proof -
  let ?g = "\<lambda>r. if wh r then f r else r"
  have d'': "d' = d\<lparr>notebooks := map ?g (notebooks d)\<rparr>"
    using d' by (simp add: Notebook_update_rows)
  have res': "res = (if (\<exists>r\<in>set (notebooks d). wh r) then getNotebookById Number d' nid else None)"
    using res by (simp only: Notebook_update_count)
  have g_id: "\<And>x. Notebook.idcad (?g x) = Notebook.idcad x" by (simp add: f_id)
  have hit: "d' = d\<lparr>notebooks := map (\<lambda>x. if Notebook.idcad x = nid then f x else x) (notebooks d)\<rparr>
           \<and> res = getNotebookById Number d' nid
           \<and> res = Some (notebookModelToEntity Number
                       ((f r)\<lparr>volunteer := include_volunteer d (f r),
                              pep := include_pep d (f r)\<rparr>))"
    if r: "r \<in> set (notebooks d)" "wh r" for r
  proof -
    have nid: "Notebook.idcad r = nid" using r(2) by (rule wh_id)
    have "map ?g (notebooks d)
        = map (\<lambda>x. if Notebook.idcad x = Notebook.idcad r then f x else x) (notebooks d)"
      using wh_id nid by (intro update_by_id[where wh = wh and f = f, OF dist r(1) r(2)]) simp
    then have 1: "d' = d\<lparr>notebooks := map (\<lambda>x. if Notebook.idcad x = nid then f x else x) (notebooks d)\<rparr>"
      using d'' nid by simp
    have 2: "res = getNotebookById Number d' nid" using res' r by auto
    have "getNotebookById Number d' (Notebook.idcad r)
        = Some (notebookModelToEntity Number
            ((?g r)\<lparr>volunteer := include_volunteer d (?g r), pep := include_pep d (?g r)\<rparr>))"
      unfolding d'' by (rule getNotebookById_updated[OF dist r(1) g_id])
    then have 3: "res = Some (notebookModelToEntity Number
                       ((f r)\<lparr>volunteer := include_volunteer d (f r),
                              pep := include_pep d (f r)\<rparr>))"
      using 2 r(2) nid by simp
    from 1 2 3 show ?thesis by blast
  qed
  have iff: "res \<noteq> None \<longleftrightarrow> (\<exists>r\<in>set (notebooks d). wh r)"
  proof
    assume "res \<noteq> None"
    then show "\<exists>r\<in>set (notebooks d). wh r" using res' by presburger
  next
    assume "\<exists>r\<in>set (notebooks d). wh r"
    then obtain r where "r \<in> set (notebooks d)" "wh r" by blast
    from hit[OF this] show "res \<noteq> None" by (metis option.distinct(1))
  qed
  have miss: "d' = d" if "res = None"
  proof -
    have "\<forall>r\<in>set (notebooks d). \<not> wh r" using iff that by blast
    then have "map ?g (notebooks d) = notebooks d" by (rule map_no_match)
    then show ?thesis using d'' by simp
  qed
  from iff hit miss show ?thesis by blast
qed

lemma reserveNotebookForVolunteer_unfold:
  "reserveNotebookForVolunteer Number now d v nid = (res, d') \<Longrightarrow>
     d' = d\<lparr>notebooks :=
            snd (Notebook_update (\<lambda>r. r\<lparr>Notebook.idvol := Some v, datareserva := Some now\<rparr>)
              (\<lambda>r. Notebook.idcad r = nid \<and> datareserva r = None
                    \<and> Notebook.Carimbo_de_data_hora r = None) (notebooks d))\<rparr>
   \<and> res = (if fst (Notebook_update (\<lambda>r. r\<lparr>Notebook.idvol := Some v, datareserva := Some now\<rparr>)
              (\<lambda>r. Notebook.idcad r = nid \<and> datareserva r = None
                    \<and> Notebook.Carimbo_de_data_hora r = None) (notebooks d)) \<noteq> 0
            then getNotebookById Number d' nid else None)"
  by (auto simp: reserveNotebookForVolunteer_def Let_def split: prod.splits)

lemma saveNotebookEvaluation_unfold:
  "saveNotebookEvaluation Number now d nid e = (res, d') \<Longrightarrow>
     d' = d\<lparr>notebooks :=
            snd (Notebook_update
              (assign_values (evaluateNotebookEntityToEvaluateNotebookModel now e))
              (\<lambda>r. Notebook.idcad r = nid \<and> Notebook.Carimbo_de_data_hora r = None)
              (notebooks d))\<rparr>
   \<and> res = (if fst (Notebook_update
              (assign_values (evaluateNotebookEntityToEvaluateNotebookModel now e))
              (\<lambda>r. Notebook.idcad r = nid \<and> Notebook.Carimbo_de_data_hora r = None)
              (notebooks d)) \<noteq> 0
            then getNotebookById Number d' nid else None)"
  by (auto simp: saveNotebookEvaluation_def Let_def split: prod.splits)

lemma assign_values_kept:
  "Notebook.idcad (assign_values m r) = Notebook.idcad r"
  "Notebook.idpep (assign_values m r) = Notebook.idpep r"
  "datareserva (assign_values m r) = datareserva r"
  "nome_do_aluno (assign_values m r) = nome_do_aluno r"
  "numero_de_matricula_do_aluno (assign_values m r) = numero_de_matricula_do_aluno r"
  by (simp_all add: assign_values_def)

lemma assign_values_evaluation:
  "Notebook.idvol (assign_values (evaluateNotebookEntityToEvaluateNotebookModel now e) r)
     = Some (EvaluateNotebookEntity.idvol e)"
  "Notebook.Carimbo_de_data_hora (assign_values (evaluateNotebookEntityToEvaluateNotebookModel now e) r)
     = Some now"
  by (simp_all add: assign_values_def evaluateNotebookEntityToEvaluateNotebookModel_def)

text \<open>The row an evaluation leaves, column by column.\<close>

lemma assign_values_row:
  "assign_values (evaluateNotebookEntityToEvaluateNotebookModel now e) x =
     x\<lparr>Notebook.idvol := Some (EvaluateNotebookEntity.idvol e),
       Notebook.unidade_prisional_do_aluno := Some (EvaluateNotebookEntity.studentPrisonUnit e),
       Notebook.tema_1 := Some (EvaluateNotebookEntity.subject1 e),
       Notebook.tema_2 := Some (EvaluateNotebookEntity.subject2 e),
       Notebook.tema_3 := Some (EvaluateNotebookEntity.subject3 e),
       Notebook.tema_4 := Some (EvaluateNotebookEntity.subject4 e),
       Notebook.tema_5 := Some (EvaluateNotebookEntity.subject5 e),
       Notebook.tema_6 := Some (EvaluateNotebookEntity.subject6 e),
       Notebook.tema_7 := Some (EvaluateNotebookEntity.subject7 e),
       Notebook.tema_8 := Some (EvaluateNotebookEntity.subject8 e),
       Notebook.tema_9 := Some (EvaluateNotebookEntity.subject9 e),
       Notebook.tema_10 := Some (EvaluateNotebookEntity.subject10 e),
       Notebook.conteudos_relevantes := Some (EvaluateNotebookEntity.relevantContent e),
       Notebook.a1 := Some (EvaluateNotebookEntity.a1 e),
       Notebook.a2 := Some (EvaluateNotebookEntity.a2 e),
       Notebook.a3 := Some (EvaluateNotebookEntity.a3 e),
       Notebook.a4 := Some (EvaluateNotebookEntity.a4 e),
       Notebook.a5 := Some (EvaluateNotebookEntity.a5 e),
       Notebook.a6 := Some (EvaluateNotebookEntity.a6 e),
       Notebook.a7 := Some (EvaluateNotebookEntity.a7 e),
       Notebook.a8 := Some (EvaluateNotebookEntity.a8 e),
       Notebook.a9 := Some (EvaluateNotebookEntity.a9 e),
       Notebook.a10 := Some (EvaluateNotebookEntity.a10 e),
       Notebook.a11 := Some (EvaluateNotebookEntity.a11 e),
       Notebook.a12 := Some (EvaluateNotebookEntity.a12 e),
       Notebook.a13 := Some (EvaluateNotebookEntity.a13 e),
       Notebook.conclusao_do_avaliador := Some (EvaluateNotebookEntity.conclusion e),
       Notebook.exclusao_de_arquivos_recebidos :=
         Some (if EvaluateNotebookEntity.archivesExclusion e then ''SIM'' else NAO),
       Notebook.Carimbo_de_data_hora := Some now\<rparr>"
  by (simp add: assign_values_def evaluateNotebookEntityToEvaluateNotebookModel_def)

text \<open>
  C1. \<open>reserveNotebookForVolunteer\<close> succeeds exactly when a row with that id has
  neither a reservation date nor an evaluation timestamp; when no row matches the result
  is \<open>None\<close> and the store is the one it was. On success, the ids of the table being
  unique, that row and no other gets \<open>idvol = v\<close> and \<open>datareserva = now\<close>, and the result
  is the entity read back from the new store.
\<close>

theorem reserveNotebookForVolunteer_conditional:
  assumes "reserveNotebookForVolunteer Number now d v nid = (res, d')"
  shows "(res \<noteq> None \<longleftrightarrow>
           (\<exists>r\<in>set (notebooks d). Notebook.idcad r = nid \<and> datareserva r = None
              \<and> Notebook.Carimbo_de_data_hora r = None))
       \<and> (res = None \<longrightarrow> d' = d)
       \<and> (distinct (map Notebook.idcad (notebooks d)) \<longrightarrow>
           (\<forall>r\<in>set (notebooks d). Notebook.idcad r = nid \<and> datareserva r = None
              \<and> Notebook.Carimbo_de_data_hora r = None \<longrightarrow>
            d' = d\<lparr>notebooks :=
                     map (\<lambda>x. if Notebook.idcad x = nid
                               then x\<lparr>Notebook.idvol := Some v, datareserva := Some now\<rparr> else x)
                       (notebooks d)\<rparr>
            \<and> res = getNotebookById Number d' nid
            \<and> res = Some (notebookModelToEntity Number
                       (r\<lparr>Notebook.idvol := Some v, datareserva := Some now,
                          volunteer := getVolunteerById d v, pep := include_pep d r\<rparr>))))"
proof -
  note u = reserveNotebookForVolunteer_unfold[OF assms]
  let ?wh = "\<lambda>r. Notebook.idcad r = nid \<and> datareserva r = None
                  \<and> Notebook.Carimbo_de_data_hora r = None"
  let ?f = "\<lambda>r. r\<lparr>Notebook.idvol := Some v, datareserva := Some now\<rparr>"
  have vol: "include_volunteer d (r\<lparr>Notebook.idvol := Some v, datareserva := Some now\<rparr>)
          = getVolunteerById d v" for r
    by (simp add: include_volunteer_def getVolunteerById_def)
  have pep: "include_pep d (r\<lparr>Notebook.idvol := Some v, datareserva := Some now\<rparr>)
          = include_pep d r" for r
    by (simp add: include_pep_def)
  have w: "\<And>x. ?wh x \<Longrightarrow> Notebook.idcad x = nid" by simp
  have k: "\<And>x. Notebook.idcad (?f x) = Notebook.idcad x" by simp
  note i = conditional_update_iff[where wh = ?wh and f = ?f and Number = Number and res = res,
      OF w k conjunct1[OF u] conjunct2[OF u]]
  have c: "\<forall>r\<in>set (notebooks d). Notebook.idcad r = nid \<and> datareserva r = None
              \<and> Notebook.Carimbo_de_data_hora r = None \<longrightarrow>
            d' = d\<lparr>notebooks :=
                     map (\<lambda>x. if Notebook.idcad x = nid
                               then x\<lparr>Notebook.idvol := Some v, datareserva := Some now\<rparr> else x)
                       (notebooks d)\<rparr>
            \<and> res = getNotebookById Number d' nid
            \<and> res = Some (notebookModelToEntity Number
                       (r\<lparr>Notebook.idvol := Some v, datareserva := Some now,
                          volunteer := getVolunteerById d v, pep := include_pep d r\<rparr>))"
    if dist: "distinct (map Notebook.idcad (notebooks d))"
    using conditional_update[where wh = ?wh and f = ?f and Number = Number and res = res,
      OF dist w k conjunct1[OF u] conjunct2[OF u]]
    unfolding vol pep by (rule conjunct1[OF conjunct2])
  have p: "distinct (map Notebook.idcad (notebooks d)) \<longrightarrow> C" if "distinct (map Notebook.idcad (notebooks d)) \<Longrightarrow> C" for C
    using that by (rule impI)
  from conjunct1[OF i] conjunct2[OF i] p[OF c] show ?thesis by (intro conjI)
qed

text \<open>
  C2. \<open>saveNotebookEvaluation\<close> succeeds exactly when a row with that id has no
  evaluation timestamp; when no row matches the result is \<open>None\<close> and the store is the
  one it was. On success, the ids of the table being unique, that row and no other is
  written: \<open>idvol\<close>, the prison unit, the ten subjects, the relevant content, the thirteen
  answers and the conclusion get the values submitted, the exclusion column gets \<open>''SIM''\<close>
  or the other string after the flag, and the evaluation timestamp gets \<open>now\<close>; the id, the
  class, the student's name and registration and the reservation date stay. The result is
  the entity read back from the new store, that is, of the row so written.
\<close>

theorem saveNotebookEvaluation_conditional:
  assumes "saveNotebookEvaluation Number now d nid e = (res, d')"
  shows "(res \<noteq> None \<longleftrightarrow>
           (\<exists>r\<in>set (notebooks d). Notebook.idcad r = nid
              \<and> Notebook.Carimbo_de_data_hora r = None))
       \<and> (res = None \<longrightarrow> d' = d)
       \<and> (distinct (map Notebook.idcad (notebooks d)) \<longrightarrow>
           (\<forall>r\<in>set (notebooks d). Notebook.idcad r = nid
              \<and> Notebook.Carimbo_de_data_hora r = None \<longrightarrow>
            d' = d\<lparr>notebooks :=
                     map (\<lambda>x. if Notebook.idcad x = nid
                               then x\<lparr>Notebook.idvol := Some (EvaluateNotebookEntity.idvol e),
                                      Notebook.unidade_prisional_do_aluno := Some (EvaluateNotebookEntity.studentPrisonUnit e),
                                      Notebook.tema_1 := Some (EvaluateNotebookEntity.subject1 e),
                                      Notebook.tema_2 := Some (EvaluateNotebookEntity.subject2 e),
                                      Notebook.tema_3 := Some (EvaluateNotebookEntity.subject3 e),
                                      Notebook.tema_4 := Some (EvaluateNotebookEntity.subject4 e),
                                      Notebook.tema_5 := Some (EvaluateNotebookEntity.subject5 e),
                                      Notebook.tema_6 := Some (EvaluateNotebookEntity.subject6 e),
                                      Notebook.tema_7 := Some (EvaluateNotebookEntity.subject7 e),
                                      Notebook.tema_8 := Some (EvaluateNotebookEntity.subject8 e),
                                      Notebook.tema_9 := Some (EvaluateNotebookEntity.subject9 e),
                                      Notebook.tema_10 := Some (EvaluateNotebookEntity.subject10 e),
                                      Notebook.conteudos_relevantes := Some (EvaluateNotebookEntity.relevantContent e),
                                      Notebook.a1 := Some (EvaluateNotebookEntity.a1 e),
                                      Notebook.a2 := Some (EvaluateNotebookEntity.a2 e),
                                      Notebook.a3 := Some (EvaluateNotebookEntity.a3 e),
                                      Notebook.a4 := Some (EvaluateNotebookEntity.a4 e),
                                      Notebook.a5 := Some (EvaluateNotebookEntity.a5 e),
                                      Notebook.a6 := Some (EvaluateNotebookEntity.a6 e),
                                      Notebook.a7 := Some (EvaluateNotebookEntity.a7 e),
                                      Notebook.a8 := Some (EvaluateNotebookEntity.a8 e),
                                      Notebook.a9 := Some (EvaluateNotebookEntity.a9 e),
                                      Notebook.a10 := Some (EvaluateNotebookEntity.a10 e),
                                      Notebook.a11 := Some (EvaluateNotebookEntity.a11 e),
                                      Notebook.a12 := Some (EvaluateNotebookEntity.a12 e),
                                      Notebook.a13 := Some (EvaluateNotebookEntity.a13 e),
                                      Notebook.conclusao_do_avaliador := Some (EvaluateNotebookEntity.conclusion e),
                                      Notebook.exclusao_de_arquivos_recebidos :=
                                        Some (if EvaluateNotebookEntity.archivesExclusion e then ''SIM'' else NAO),
                                      Notebook.Carimbo_de_data_hora := Some now\<rparr>
                               else x)
                       (notebooks d)\<rparr>
            \<and> res = getNotebookById Number d' nid
            \<and> res = Some (notebookModelToEntity Number
                       (r\<lparr>Notebook.idvol := Some (EvaluateNotebookEntity.idvol e),
                          Notebook.unidade_prisional_do_aluno := Some (EvaluateNotebookEntity.studentPrisonUnit e),
                          Notebook.tema_1 := Some (EvaluateNotebookEntity.subject1 e),
                          Notebook.tema_2 := Some (EvaluateNotebookEntity.subject2 e),
                          Notebook.tema_3 := Some (EvaluateNotebookEntity.subject3 e),
                          Notebook.tema_4 := Some (EvaluateNotebookEntity.subject4 e),
                          Notebook.tema_5 := Some (EvaluateNotebookEntity.subject5 e),
                          Notebook.tema_6 := Some (EvaluateNotebookEntity.subject6 e),
                          Notebook.tema_7 := Some (EvaluateNotebookEntity.subject7 e),
                          Notebook.tema_8 := Some (EvaluateNotebookEntity.subject8 e),
                          Notebook.tema_9 := Some (EvaluateNotebookEntity.subject9 e),
                          Notebook.tema_10 := Some (EvaluateNotebookEntity.subject10 e),
                          Notebook.conteudos_relevantes := Some (EvaluateNotebookEntity.relevantContent e),
                          Notebook.a1 := Some (EvaluateNotebookEntity.a1 e),
                          Notebook.a2 := Some (EvaluateNotebookEntity.a2 e),
                          Notebook.a3 := Some (EvaluateNotebookEntity.a3 e),
                          Notebook.a4 := Some (EvaluateNotebookEntity.a4 e),
                          Notebook.a5 := Some (EvaluateNotebookEntity.a5 e),
                          Notebook.a6 := Some (EvaluateNotebookEntity.a6 e),
                          Notebook.a7 := Some (EvaluateNotebookEntity.a7 e),
                          Notebook.a8 := Some (EvaluateNotebookEntity.a8 e),
                          Notebook.a9 := Some (EvaluateNotebookEntity.a9 e),
                          Notebook.a10 := Some (EvaluateNotebookEntity.a10 e),
                          Notebook.a11 := Some (EvaluateNotebookEntity.a11 e),
                          Notebook.a12 := Some (EvaluateNotebookEntity.a12 e),
                          Notebook.a13 := Some (EvaluateNotebookEntity.a13 e),
                          Notebook.conclusao_do_avaliador := Some (EvaluateNotebookEntity.conclusion e),
                          Notebook.exclusao_de_arquivos_recebidos :=
                            Some (if EvaluateNotebookEntity.archivesExclusion e then ''SIM'' else NAO),
                          Notebook.Carimbo_de_data_hora := Some now,
                          volunteer := getVolunteerById d (EvaluateNotebookEntity.idvol e),
                          pep := include_pep d r\<rparr>))))"
proof -
  note u = saveNotebookEvaluation_unfold[OF assms]
  let ?f = "assign_values (evaluateNotebookEntityToEvaluateNotebookModel now e)"
  let ?wh = "\<lambda>r. Notebook.idcad r = nid \<and> Notebook.Carimbo_de_data_hora r = None"
  have vol: "include_volunteer d (?f r) = getVolunteerById d (EvaluateNotebookEntity.idvol e)" for r
    by (simp add: include_volunteer_def getVolunteerById_def assign_values_evaluation)
  have pep: "include_pep d (?f r) = include_pep d r" for r
    by (simp add: include_pep_def assign_values_kept)
  have w: "\<And>x. ?wh x \<Longrightarrow> Notebook.idcad x = nid" by simp
  have k: "\<And>x. Notebook.idcad (?f x) = Notebook.idcad x" by (simp add: assign_values_kept)
  note i = conditional_update_iff[where wh = ?wh and f = ?f and Number = Number and res = res,
      OF w k conjunct1[OF u] conjunct2[OF u]]
  have c: "\<forall>r\<in>set (notebooks d). Notebook.idcad r = nid
              \<and> Notebook.Carimbo_de_data_hora r = None \<longrightarrow>
            d' = d\<lparr>notebooks :=
                     map (\<lambda>x. if Notebook.idcad x = nid
                               then assign_values (evaluateNotebookEntityToEvaluateNotebookModel now e) x
                               else x)
                       (notebooks d)\<rparr>
            \<and> res = getNotebookById Number d' nid
            \<and> res = Some (notebookModelToEntity Number
                       ((assign_values (evaluateNotebookEntityToEvaluateNotebookModel now e) r)
                          \<lparr>volunteer := getVolunteerById d (EvaluateNotebookEntity.idvol e),
                           pep := include_pep d r\<rparr>))"
    if dist: "distinct (map Notebook.idcad (notebooks d))"
    using conditional_update[where wh = ?wh and f = ?f and Number = Number and res = res,
      OF dist w k conjunct1[OF u] conjunct2[OF u]]
    unfolding vol pep by (rule conjunct1[OF conjunct2])
  have p: "distinct (map Notebook.idcad (notebooks d)) \<longrightarrow> C" if "distinct (map Notebook.idcad (notebooks d)) \<Longrightarrow> C" for C
    using that by (rule impI)
  from conjunct1[OF i] conjunct2[OF i] p[OF c, unfolded assign_values_row]
  show ?thesis by (intro conjI)
qed

section \<open>The exclusion flag through storage\<close>

lemma assign_values_exclusao:
  "Notebook.exclusao_de_arquivos_recebidos (assign_values m r) =
     EvaluateNotebookModel.exclusao_de_arquivos_recebidos m"
  by (simp add: assign_values_def)

text \<open>
  C10. The exclusion flag round-trips: the evaluation mapper stores \<open>''SIM''\<close> exactly when
  \<open>archivesExclusion\<close> is true and the other string otherwise; the row mapper reads
  \<open>True\<close> exactly when the stored string is \<open>''SIM''\<close>; so the entity read from a row to
  which the mapped evaluation was assigned carries the flag that was submitted.
\<close>

theorem archivesExclusion_roundtrip:
  "EvaluateNotebookModel.exclusao_de_arquivos_recebidos
      (evaluateNotebookEntityToEvaluateNotebookModel now e)
     = Some (if EvaluateNotebookEntity.archivesExclusion e then ''SIM'' else NAO)
   \<and> (EvaluateNotebookModel.exclusao_de_arquivos_recebidos
        (evaluateNotebookEntityToEvaluateNotebookModel now e) = Some ''SIM''
      \<longleftrightarrow> EvaluateNotebookEntity.archivesExclusion e)
   \<and> (NotebookEntity.archivesExclusion (notebookModelToEntity Number r)
      \<longleftrightarrow> Notebook.exclusao_de_arquivos_recebidos r = Some ''SIM'')
   \<and> NotebookEntity.archivesExclusion
       (notebookModelToEntity Number
          (assign_values (evaluateNotebookEntityToEvaluateNotebookModel now e) r))
     = EvaluateNotebookEntity.archivesExclusion e"
  by (simp add: assign_values_exclusao evaluateNotebookEntityToEvaluateNotebookModel_def
        notebookModelToEntity_def NAO_def)

section \<open>Sequences of operations\<close>

lemma exec_notebooks:
  "notebooks (exec (Claim now v nid) d) =
     map (\<lambda>r. if Notebook.idcad r = nid \<and> datareserva r = None
                  \<and> Notebook.Carimbo_de_data_hora r = None
               then r\<lparr>Notebook.idvol := Some v, datareserva := Some now\<rparr> else r) (notebooks d)"
  "notebooks (exec (Evaluate now nid e) d) =
     map (\<lambda>r. if Notebook.idcad r = nid \<and> Notebook.Carimbo_de_data_hora r = None
               then assign_values (evaluateNotebookEntityToEvaluateNotebookModel now e) r else r)
       (notebooks d)"
  by (simp_all add: reserveNotebookForVolunteer_def saveNotebookEvaluation_def
        Notebook_update_def Let_def)

declare exec.simps [simp del]

lemma exec_length: "length (notebooks (exec x d)) = length (notebooks d)"
  by (cases x) (simp_all only: exec_notebooks length_map)

lemma run_length: "length (notebooks (run ops d)) = length (notebooks d)"
  by (induction ops arbitrary: d) (simp_all add: exec_length)

text \<open>What one operation does to the row at a position.\<close>

lemma exec_row:
  assumes "i < length (notebooks d)"
  shows "notebooks (exec (Claim now v nid) d) ! i =
           (let r = notebooks d ! i in
            if Notebook.idcad r = nid \<and> datareserva r = None
                 \<and> Notebook.Carimbo_de_data_hora r = None
            then r\<lparr>Notebook.idvol := Some v, datareserva := Some now\<rparr> else r)"
    and "notebooks (exec (Evaluate now nid e) d) ! i =
           (let r = notebooks d ! i in
            if Notebook.idcad r = nid \<and> Notebook.Carimbo_de_data_hora r = None
            then assign_values (evaluateNotebookEntityToEvaluateNotebookModel now e) r else r)"
  using assms by (simp_all only: exec_notebooks nth_map Let_def)

lemma exec_idcad:
  "i < length (notebooks d) \<Longrightarrow>
     Notebook.idcad (notebooks (exec x d) ! i) = Notebook.idcad (notebooks d ! i)"
  by (cases x) (simp_all add: exec_row Let_def assign_values_kept)

lemma run_idcad:
  "i < length (notebooks d) \<Longrightarrow>
     Notebook.idcad (notebooks (run ops d) ! i) = Notebook.idcad (notebooks d ! i)"
  by (induction ops arbitrary: d) (simp_all add: exec_idcad exec_length)

lemma exec_evaluated:
  "i < length (notebooks d) \<Longrightarrow> Notebook.Carimbo_de_data_hora (notebooks d ! i) \<noteq> None
    \<Longrightarrow> notebooks (exec x d) ! i = notebooks d ! i"
  by (cases x) (auto simp: exec_row Let_def)

lemma run_evaluated:
  "i < length (notebooks d) \<Longrightarrow> Notebook.Carimbo_de_data_hora (notebooks d ! i) \<noteq> None
    \<Longrightarrow> notebooks (run ops d) ! i = notebooks d ! i"
  by (induction ops arbitrary: d) (simp_all add: exec_evaluated exec_length)

lemma exec_reserved:
  assumes "i < length (notebooks d)" "datareserva (notebooks d ! i) \<noteq> None"
  shows "datareserva (notebooks (exec x d) ! i) = datareserva (notebooks d ! i)
       \<and> (Notebook.idvol (notebooks (exec x d) ! i) = Notebook.idvol (notebooks d ! i)
          \<or> (\<exists>now e. x = Evaluate now (Notebook.idcad (notebooks d ! i)) e
                \<and> Notebook.Carimbo_de_data_hora (notebooks d ! i) = None
                \<and> Notebook.idvol (notebooks (exec x d) ! i) = Some (EvaluateNotebookEntity.idvol e)))"
  using assms
  by (cases x) (auto simp: exec_row Let_def assign_values_kept assign_values_evaluation)

text \<open>
  C3 (as amended). Once a row has a reservation date, no sequence of claims and
  evaluations changes that date or the row's id, and the row's \<open>idvol\<close> is either the
  one it had or the \<open>idvol\<close> submitted with an evaluation of that notebook in the
  sequence: an evaluation writes its own \<open>idvol\<close> over the reserving volunteer, and
  nothing ever sets the column back to null.
\<close>

theorem reservation_date_kept:
  assumes "i < length (notebooks d)" and "datareserva (notebooks d ! i) \<noteq> None"
  shows "length (notebooks (run ops d)) = length (notebooks d)
       \<and> Notebook.idcad (notebooks (run ops d) ! i) = Notebook.idcad (notebooks d ! i)
       \<and> datareserva (notebooks (run ops d) ! i) = datareserva (notebooks d ! i)
       \<and> (Notebook.idvol (notebooks (run ops d) ! i) = Notebook.idvol (notebooks d ! i)
          \<or> (\<exists>now e. Evaluate now (Notebook.idcad (notebooks d ! i)) e \<in> set ops
                \<and> Notebook.idvol (notebooks (run ops d) ! i)
                    = Some (EvaluateNotebookEntity.idvol e)))"
  using assms
proof (induction ops arbitrary: d)
  case Nil
  then show ?case by simp
next
  case (Cons x xs)
  let ?d1 = "exec x d"
  have i1: "i < length (notebooks ?d1)" using Cons.prems(1) by (simp add: exec_length)
  note step = exec_reserved[OF Cons.prems, of x]
  have r1: "datareserva (notebooks ?d1 ! i) \<noteq> None" using step Cons.prems(2) by simp
  note ih = Cons.IH[OF i1 r1]
  have id1: "Notebook.idcad (notebooks ?d1 ! i) = Notebook.idcad (notebooks d ! i)"
    using Cons.prems(1) by (rule exec_idcad)
  have len: "length (notebooks (run (x # xs) d)) = length (notebooks d)" by (rule run_length)
  have idc: "Notebook.idcad (notebooks (run (x # xs) d) ! i) = Notebook.idcad (notebooks d ! i)"
    using Cons.prems(1) by (rule run_idcad)
  have dr: "datareserva (notebooks (run (x # xs) d) ! i) = datareserva (notebooks d ! i)"
    using ih step by simp
  have vol: "Notebook.idvol (notebooks (run (x # xs) d) ! i) = Notebook.idvol (notebooks d ! i)
          \<or> (\<exists>now e. Evaluate now (Notebook.idcad (notebooks d ! i)) e \<in> set (x # xs)
                \<and> Notebook.idvol (notebooks (run (x # xs) d) ! i)
                    = Some (EvaluateNotebookEntity.idvol e))"
  proof -
    from ih have "Notebook.idvol (notebooks (run xs ?d1) ! i) = Notebook.idvol (notebooks ?d1 ! i)
          \<or> (\<exists>now e. Evaluate now (Notebook.idcad (notebooks d ! i)) e \<in> set xs
                \<and> Notebook.idvol (notebooks (run xs ?d1) ! i)
                    = Some (EvaluateNotebookEntity.idvol e))"
      unfolding id1 by blast
    then show ?thesis
    proof
      assume same: "Notebook.idvol (notebooks (run xs ?d1) ! i) = Notebook.idvol (notebooks ?d1 ! i)"
      from step show ?thesis using same by auto
    next
      assume "\<exists>now e. Evaluate now (Notebook.idcad (notebooks d ! i)) e \<in> set xs
                \<and> Notebook.idvol (notebooks (run xs ?d1) ! i)
                    = Some (EvaluateNotebookEntity.idvol e)"
      then show ?thesis by auto
    qed
  qed
  from len idc dr vol show ?case by blast
qed

lemma exec_newly_evaluated:
  assumes "i < length (notebooks d)" "Notebook.Carimbo_de_data_hora (notebooks d ! i) = None"
    and "Notebook.Carimbo_de_data_hora (notebooks (exec x d) ! i) \<noteq> None"
  shows "\<exists>now e. x = Evaluate now (Notebook.idcad (notebooks d ! i)) e
           \<and> Notebook.idvol (notebooks (exec x d) ! i) = Some (EvaluateNotebookEntity.idvol e)
           \<and> Notebook.Carimbo_de_data_hora (notebooks (exec x d) ! i) = Some now
           \<and> datareserva (notebooks (exec x d) ! i) = datareserva (notebooks d ! i)"
  using assms
  by (cases x)
     (auto simp: exec_row Let_def assign_values_kept assign_values_evaluation split: if_splits)

lemma exec_datareserva_None:
  assumes "i < length (notebooks d)"
    and "datareserva (notebooks (exec x d) ! i) = None"
  shows "datareserva (notebooks d ! i) = None"
  using assms
  by (cases x) (auto simp: exec_row Let_def assign_values_kept split: if_splits)

text \<open>
  C4 (as amended). For a notebook that starts unreserved and unevaluated, after any
  sequence of claims and evaluations: if it has an evaluation timestamp, then the sequence
  holds an evaluation of that notebook whose submitted \<open>idvol\<close> is the row's \<open>idvol\<close> and
  whose clock value is the timestamp. Nothing is said of the reservation date, which an
  evaluation neither requires nor sets.
\<close>

theorem evaluated_by_submitted_volunteer:
  assumes "i < length (notebooks d)"
    and "datareserva (notebooks d ! i) = None"
    and "Notebook.Carimbo_de_data_hora (notebooks d ! i) = None"
    and "Notebook.Carimbo_de_data_hora (notebooks (run ops d) ! i) \<noteq> None"
  shows "\<exists>now e. Evaluate now (Notebook.idcad (notebooks d ! i)) e \<in> set ops
           \<and> Notebook.idvol (notebooks (run ops d) ! i) = Some (EvaluateNotebookEntity.idvol e)
           \<and> Notebook.Carimbo_de_data_hora (notebooks (run ops d) ! i) = Some now"
  using assms(1,3,4)
proof (induction ops arbitrary: d)
  case Nil
  then show ?case by simp
next
  case (Cons x xs)
  let ?d1 = "exec x d"
  have i1: "i < length (notebooks ?d1)" using Cons.prems(1) by (simp add: exec_length)
  have id1: "Notebook.idcad (notebooks ?d1 ! i) = Notebook.idcad (notebooks d ! i)"
    using Cons.prems(1) by (rule exec_idcad)
  show ?case
  proof (cases "Notebook.Carimbo_de_data_hora (notebooks ?d1 ! i) = None")
    case True
    from Cons.IH[OF i1 True] Cons.prems(3) show ?thesis unfolding id1 by auto
  next
    case False
    from exec_newly_evaluated[OF Cons.prems(1,2) False] obtain now e where
      x: "x = Evaluate now (Notebook.idcad (notebooks d ! i)) e"
      and v: "Notebook.idvol (notebooks ?d1 ! i) = Some (EvaluateNotebookEntity.idvol e)"
      and c: "Notebook.Carimbo_de_data_hora (notebooks ?d1 ! i) = Some now"
      by blast
    have "notebooks (run (x # xs) d) ! i = notebooks ?d1 ! i"
      using run_evaluated[OF i1 False] by simp
    with x v c show ?thesis by auto
  qed
qed

lemma Notebook_update_rejected:
  "\<forall>r\<in>set rows. \<not> wh r \<Longrightarrow> Notebook_update f wh rows = (0, rows)"
  using map_no_match[of rows wh f] by (simp add: Notebook_update_def filter_empty_conv)

text \<open>
  C5. On a table with unique ids, for a notebook that has an evaluation timestamp both
  \<open>reserveNotebookForVolunteer\<close> and \<open>saveNotebookEvaluation\<close> return \<open>None\<close> and leave
  the store as it was; and after any sequence of claims and evaluations the row is still
  in the table, field for field, under the same ids.
\<close>

theorem evaluated_is_terminal:
  assumes "distinct (map Notebook.idcad (notebooks d))"
    and "r \<in> set (notebooks d)"
    and "Notebook.Carimbo_de_data_hora r \<noteq> None"
  shows "reserveNotebookForVolunteer Number now d v (Notebook.idcad r) = (None, d)
       \<and> saveNotebookEvaluation Number now d (Notebook.idcad r) e = (None, d)
       \<and> map Notebook.idcad (notebooks (run ops d)) = map Notebook.idcad (notebooks d)
       \<and> r \<in> set (notebooks (run ops d))"
proof -
  have only: "x = r" if "x \<in> set (notebooks d)" "Notebook.idcad x = Notebook.idcad r" for x
    using that by (rule idcad_unique[OF assms(1,2)])
  have 1: "\<forall>x\<in>set (notebooks d). \<not> (Notebook.idcad x = Notebook.idcad r \<and> datareserva x = None
              \<and> Notebook.Carimbo_de_data_hora x = None)"
  proof (intro ballI notI)
    fix x assume x: "x \<in> set (notebooks d)"
      and h: "Notebook.idcad x = Notebook.idcad r \<and> datareserva x = None
                \<and> Notebook.Carimbo_de_data_hora x = None"
    from h have "Notebook.idcad x = Notebook.idcad r" by (rule conjunct1)
    with x have "x = r" by (rule only)
    with h assms(3) show False by simp
  qed
  have 2: "\<forall>x\<in>set (notebooks d). \<not> (Notebook.idcad x = Notebook.idcad r
              \<and> Notebook.Carimbo_de_data_hora x = None)"
  proof (intro ballI notI)
    fix x assume x: "x \<in> set (notebooks d)"
      and h: "Notebook.idcad x = Notebook.idcad r \<and> Notebook.Carimbo_de_data_hora x = None"
    from h have "Notebook.idcad x = Notebook.idcad r" by (rule conjunct1)
    with x have "x = r" by (rule only)
    with h assms(3) show False by simp
  qed
  have a: "reserveNotebookForVolunteer Number now d v (Notebook.idcad r) = (None, d)"
    unfolding reserveNotebookForVolunteer_def Notebook_update_rejected[OF 1] by simp
  have b: "saveNotebookEvaluation Number now d (Notebook.idcad r) e = (None, d)"
    unfolding saveNotebookEvaluation_def Notebook_update_rejected[OF 2] by simp
  have c: "map Notebook.idcad (notebooks (run ops d)) = map Notebook.idcad (notebooks d)"
    by (rule nth_equalityI) (simp_all add: run_length run_idcad)
  from assms(2) obtain i where i: "i < length (notebooks d)" "notebooks d ! i = r"
    by (auto simp: in_set_conv_nth)
  have "notebooks (run ops d) ! i = r"
    using run_evaluated[OF i(1), of ops] assms(3) i(2) by simp
  then have e: "r \<in> set (notebooks (run ops d))"
    using i(1) run_length[of ops d] by (metis nth_mem)
  from a b c e show ?thesis by (intro conjI)
qed

section \<open>Listings and the controller\<close>

lemma entity_of_row:
  "NotebookEntity.idcad (notebookModelToEntity Number r) = Notebook.idcad r"
  "NotebookEntity.idvol (notebookModelToEntity Number r) = Notebook.idvol r"
  "reservationDate (notebookModelToEntity Number r) = datareserva r"
  "evaluatedDate (notebookModelToEntity Number r) = Notebook.Carimbo_de_data_hora r"
  by (simp_all add: notebookModelToEntity_def)

lemma findAll_entities:
  "e \<in> set (map (notebookModelToEntity Number) (Notebook_findAll d wh)) \<Longrightarrow>
     \<exists>r\<in>set (notebooks d). wh r
        \<and> NotebookEntity.idcad e = Notebook.idcad r
        \<and> NotebookEntity.idvol e = Notebook.idvol r
        \<and> reservationDate e = datareserva r
        \<and> evaluatedDate e = Notebook.Carimbo_de_data_hora r"
  by (auto simp: Notebook_findAll_def entity_of_row)

text \<open>
  C7. \<open>getAvailableNotebooks\<close> lists only notebooks with neither a reservation date nor
  an evaluation timestamp, and \<open>getReservedNotebooksByIdVol v\<close> lists only notebooks
  whose \<open>idvol\<close> is \<open>v\<close>; each listed entity is read from such a row of the table.
\<close>

theorem listings_sound:
  "(\<forall>e\<in>set (getAvailableNotebooks Number d).
       reservationDate e = None \<and> evaluatedDate e = None
       \<and> (\<exists>r\<in>set (notebooks d). Notebook.idcad r = NotebookEntity.idcad e
             \<and> datareserva r = None \<and> Notebook.Carimbo_de_data_hora r = None))
   \<and> (\<forall>e\<in>set (getReservedNotebooksByIdVol Number d v).
       NotebookEntity.idvol e = Some v
       \<and> (\<exists>r\<in>set (notebooks d). Notebook.idcad r = NotebookEntity.idcad e
             \<and> Notebook.idvol r = Some v))"
proof (intro conjI ballI)
  fix e assume "e \<in> set (getAvailableNotebooks Number d)"
  then have "e \<in> set (map (notebookModelToEntity Number)
               (Notebook_findAll d (\<lambda>r. datareserva r = None
                   \<and> Notebook.Carimbo_de_data_hora r = None)))"
    by (simp only: getAvailableNotebooks_def)
  from findAll_entities[OF this] obtain r where "r \<in> set (notebooks d)"
      "datareserva r = None \<and> Notebook.Carimbo_de_data_hora r = None"
      "NotebookEntity.idcad e = Notebook.idcad r" "reservationDate e = datareserva r"
      "evaluatedDate e = Notebook.Carimbo_de_data_hora r"
    by blast
  then show "reservationDate e = None" "evaluatedDate e = None"
    "\<exists>r\<in>set (notebooks d). Notebook.idcad r = NotebookEntity.idcad e
             \<and> datareserva r = None \<and> Notebook.Carimbo_de_data_hora r = None"
    by auto
next
  fix e assume "e \<in> set (getReservedNotebooksByIdVol Number d v)"
  then have "e \<in> set (map (notebookModelToEntity Number)
               (Notebook_findAll d (\<lambda>r. Notebook.idvol r = Some v
                   \<and> Notebook.Carimbo_de_data_hora r = None \<and> datareserva r = None)))"
    by (simp only: getReservedNotebooksByIdVol_def)
  from findAll_entities[OF this] obtain r where "r \<in> set (notebooks d)"
      "Notebook.idvol r = Some v"
      "NotebookEntity.idcad e = Notebook.idcad r" "NotebookEntity.idvol e = Notebook.idvol r"
    by blast
  then show "NotebookEntity.idvol e = Some v"
    "\<exists>r\<in>set (notebooks d). Notebook.idcad r = NotebookEntity.idcad e
             \<and> Notebook.idvol r = Some v"
    by auto
qed

lemma getVolunteerById_None:
  "getVolunteerById d v = None \<longleftrightarrow> (\<forall>x\<in>set (volunteers d). Volunteer.idvol x \<noteq> v)"
  by (auto simp: getVolunteerById_def find_None_iff)

text \<open>
  C8. The controller's reservation fails with 412 \<open>VOLUNTEER_NOT_FOUND\<close> when no
  volunteer has the id; otherwise with 404 \<open>NOTEBOOK_NOT_FOUND\<close> when no notebook has the
  id; otherwise it calls the repository, and answers 400
  \<open>NOTEBOOK_ALREADY_RESERVED_ERROR\<close> when the repository returns \<open>None\<close> and the
  formatted notebook when it returns one.
\<close>

theorem reserve_outcomes:
  "NotebookAPI_reserveNotebookForVolunteer format Number now d
      \<lparr>ReserveNotebookDataEntity.idvol = v, notebookId = nid\<rparr> =
    (if \<forall>x\<in>set (volunteers d). Volunteer.idvol x \<noteq> v
     then (Inl (ApiError 412 (VolunteerError ''VOLUNTEER_NOT_FOUND''
                  (''Volunteer with id '' @ String_int v @ '' not found''))), d)
     else if \<forall>r\<in>set (notebooks d). Notebook.idcad r \<noteq> nid
     then (Inl (ApiError 404 (NotebookError ''NOTEBOOK_NOT_FOUND''
                  (''Notebook with id '' @ String_int nid @ '' not found''))), d)
     else case reserveNotebookForVolunteer Number now d v nid of
            (None, d') \<Rightarrow>
              (Inl (ApiError 400 (NotebookError ''NOTEBOOK_ALREADY_RESERVED_ERROR''
                      ''Notebook already reserved or already evaluated'')), d')
          | (Some reservedNotebook, d') \<Rightarrow> (Inr (format reservedNotebook), d'))"
proof -
  have "NotebookAPI_reserveNotebookForVolunteer format Number now d
      \<lparr>ReserveNotebookDataEntity.idvol = v, notebookId = nid\<rparr> =
    (if getVolunteerById d v = None
     then (Inl (ApiError 412 (VolunteerError ''VOLUNTEER_NOT_FOUND''
                  (''Volunteer with id '' @ String_int v @ '' not found''))), d)
     else if getNotebookById Number d nid = None
     then (Inl (ApiError 404 (NotebookError ''NOTEBOOK_NOT_FOUND''
                  (''Notebook with id '' @ String_int nid @ '' not found''))), d)
     else case reserveNotebookForVolunteer Number now d v nid of
            (None, d') \<Rightarrow>
              (Inl (ApiError 400 (NotebookError ''NOTEBOOK_ALREADY_RESERVED_ERROR''
                      ''Notebook already reserved or already evaluated'')), d')
          | (Some reservedNotebook, d') \<Rightarrow> (Inr (format reservedNotebook), d'))"
    by (simp add: NotebookAPI_reserveNotebookForVolunteer_def Let_def split: option.splits)
  then show ?thesis
    unfolding getVolunteerById_None getNotebookById_None .
qed

section \<open>Worked examples\<close>

lemma exec_state:
  "exec (Claim now v nid) d =
     d\<lparr>notebooks := map (\<lambda>r. if Notebook.idcad r = nid \<and> datareserva r = None
                  \<and> Notebook.Carimbo_de_data_hora r = None
               then r\<lparr>Notebook.idvol := Some v, datareserva := Some now\<rparr> else r) (notebooks d)\<rparr>"
  "exec (Evaluate now nid e) d =
     d\<lparr>notebooks := map (\<lambda>r. if Notebook.idcad r = nid \<and> Notebook.Carimbo_de_data_hora r = None
               then assign_values (evaluateNotebookEntityToEvaluateNotebookModel now e) r else r)
       (notebooks d)\<rparr>"
  by (simp_all add: exec.simps reserveNotebookForVolunteer_def saveNotebookEvaluation_def
        Notebook_update_def Let_def)

lemma db_claimed_run: "run [Claim 100 7 2] db_imported = db_claimed"
  by (simp add: exec_state db_claimed_def db_imported_def imported_notebook_def)

lemmas repository_defs =
  reserveNotebookForVolunteer_def saveNotebookEvaluation_def Notebook_update_def
  getNotebookById_def Notebook_findOne_def Notebook_findAll_def include_volunteer_def
  include_pep_def getReservedNotebooksByIdVol_def getAvailableNotebooks_def
  getVolunteerById_def

lemmas example_defs =
  db_imported_def db_legacy_def db_claimed_def db_evaluated_def imported_notebook_def

text \<open>
  Against C3 as stated: volunteer 7 claims notebook 2, then an evaluation submitted with
  \<open>idvol = 8\<close> succeeds and the row's \<open>idvol\<close> changes from 7 to 8, the reservation date
  staying.
\<close>

theorem evaluation_reassigns_volunteer:
  "map Notebook.idvol (notebooks (run [Claim 100 7 2] db_imported)) = [None, Some 7]
   \<and> map datareserva (notebooks (run [Claim 100 7 2] db_imported)) = [None, Some 100]
   \<and> fst (saveNotebookEvaluation Number_cell 900 (run [Claim 100 7 2] db_imported) 2
            (evaluation_by 8)) \<noteq> None
   \<and> map Notebook.idvol (notebooks (snd (saveNotebookEvaluation Number_cell 900
            (run [Claim 100 7 2] db_imported) 2 (evaluation_by 8)))) = [None, Some 8]
   \<and> map datareserva (notebooks (snd (saveNotebookEvaluation Number_cell 900
            (run [Claim 100 7 2] db_imported) 2 (evaluation_by 8)))) = [None, Some 100]"
  unfolding db_claimed_run
  by (simp add: repository_defs example_defs Let_def assign_values_kept
        assign_values_evaluation evaluation_by_def)

text \<open>
  Against C4 as stated: the controller evaluates notebook 1 of the imported store, which
  nobody has claimed; the evaluation succeeds and the row ends with an evaluation timestamp
  and no reservation date.
\<close>

theorem evaluation_without_reservation:
  "map Notebook.idvol (notebooks db_imported) = [None, None]
   \<and> map datareserva (notebooks db_imported) = [None, None]
   \<and> map Notebook.Carimbo_de_data_hora (notebooks db_imported) = [None, None]
   \<and> \<not> isl (fst (NotebookAPI_saveNotebookEvaluation Number_cell 900 db_imported 1
                   (evaluation_by 8)))
   \<and> map Notebook.Carimbo_de_data_hora (notebooks (snd
         (NotebookAPI_saveNotebookEvaluation Number_cell 900 db_imported 1 (evaluation_by 8))))
       = [Some 900, None]
   \<and> map datareserva (notebooks (snd
         (NotebookAPI_saveNotebookEvaluation Number_cell 900 db_imported 1 (evaluation_by 8))))
       = [None, None]"
  by (simp add: NotebookAPI_saveNotebookEvaluation_def repository_defs example_defs Let_def
        assign_values_kept assign_values_evaluation evaluation_by_def)

text \<open>
  C6. The reserved listing asks for \<open>datareserva = None\<close> besides \<open>idvol = v\<close> and no
  evaluation timestamp. Volunteer 7 claims notebook 2 of the imported store; the claim
  succeeds, the notebook is reserved by 7 and not evaluated, and the reserved listing of
  volunteer 7 is empty.
\<close>

theorem reserved_notebook_not_listed:
  "fst (reserveNotebookForVolunteer Number_cell 100 db_imported 7 2) \<noteq> None
   \<and> snd (reserveNotebookForVolunteer Number_cell 100 db_imported 7 2) = db_claimed
   \<and> map Notebook.idvol (notebooks db_claimed) = [None, Some 7]
   \<and> map Notebook.Carimbo_de_data_hora (notebooks db_claimed) = [None, None]
   \<and> getReservedNotebooksByIdVol Number_cell db_claimed 7 = []"
  by (simp add: repository_defs example_defs Let_def)

text \<open>
  C9. The accessible listing is the reserved listing followed by the available one, so it
  inherits the reserved listing's extra condition \<open>datareserva = None\<close>. Volunteer 7
  claims notebook 2 of the imported store; the notebook is then reserved by 7 and not
  evaluated, notebook 1 is still available, and the accessible listing of volunteer 7
  (formatted to the ids) holds notebook 1 alone: the volunteer's own reservation, which
  should come first, is not in it.
\<close>

theorem claimed_notebook_not_accessible:
  "run [Claim 100 7 2] db_imported = db_claimed
   \<and> map Notebook.idcad (notebooks db_claimed) = [1, 2]
   \<and> map Notebook.idvol (notebooks db_claimed) = [None, Some 7]
   \<and> map datareserva (notebooks db_claimed) = [None, Some 100]
   \<and> map Notebook.Carimbo_de_data_hora (notebooks db_claimed) = [None, None]
   \<and> NotebookAPI_getAvailableNotebooksForEvalForIdVol NotebookEntity.idcad Number_cell
         db_claimed 7 = [1]"
  unfolding db_claimed_run
  by (simp add: NotebookAPI_getAvailableNotebooksForEvalForIdVol_def repository_defs
        example_defs Let_def entity_of_row)

subsection \<open>The theorems at the example stores\<close>

theorem reserveNotebookForVolunteer_conditional_witness:
  "distinct (map Notebook.idcad (notebooks db_imported))
   \<and> (\<exists>r\<in>set (notebooks db_imported). Notebook.idcad r = 1 \<and> datareserva r = None
         \<and> Notebook.Carimbo_de_data_hora r = None)
   \<and> fst (reserveNotebookForVolunteer Number_cell 100 db_imported 7 1) \<noteq> None
   \<and> fst (reserveNotebookForVolunteer Number_cell 100 db_imported 7 1)
       = getNotebookById Number_cell
           (snd (reserveNotebookForVolunteer Number_cell 100 db_imported 7 1)) 1
   \<and> fst (reserveNotebookForVolunteer Number_cell 100 db_imported 7 3) = None
   \<and> snd (reserveNotebookForVolunteer Number_cell 100 db_imported 7 3) = db_imported"
proof -
  have dist: "distinct (map Notebook.idcad (notebooks db_imported))"
    by (simp add: db_imported_def imported_notebook_def)
  have ex: "\<exists>r\<in>set (notebooks db_imported). Notebook.idcad r = 1 \<and> datareserva r = None
         \<and> Notebook.Carimbo_de_data_hora r = None"
    by (simp add: db_imported_def imported_notebook_def)
  have no: "\<not> (\<exists>r\<in>set (notebooks db_imported). Notebook.idcad r = 3 \<and> datareserva r = None
         \<and> Notebook.Carimbo_de_data_hora r = None)"
    by (simp add: db_imported_def imported_notebook_def)
  have hit: "fst (reserveNotebookForVolunteer Number_cell 100 db_imported 7 1) \<noteq> None"
    using reserveNotebookForVolunteer_conditional[OF surjective_pairing] ex by blast
  have reread: "fst (reserveNotebookForVolunteer Number_cell 100 db_imported 7 1)
       = getNotebookById Number_cell
           (snd (reserveNotebookForVolunteer Number_cell 100 db_imported 7 1)) 1"
    using reserveNotebookForVolunteer_conditional[OF surjective_pairing] dist ex by fast
  have miss: "fst (reserveNotebookForVolunteer Number_cell 100 db_imported 7 3) = None"
    using reserveNotebookForVolunteer_conditional[OF surjective_pairing] no by blast
  have same: "snd (reserveNotebookForVolunteer Number_cell 100 db_imported 7 3) = db_imported"
    using reserveNotebookForVolunteer_conditional[OF surjective_pairing] miss by blast
  from dist ex hit reread miss same show ?thesis by (intro conjI)
qed

theorem saveNotebookEvaluation_conditional_witness:
  "distinct (map Notebook.idcad (notebooks db_imported))
   \<and> (\<exists>r\<in>set (notebooks db_imported). Notebook.idcad r = 2
         \<and> Notebook.Carimbo_de_data_hora r = None)
   \<and> fst (saveNotebookEvaluation Number_cell 900 db_imported 2 (evaluation_by 8)) \<noteq> None
   \<and> fst (saveNotebookEvaluation Number_cell 900 db_imported 2 (evaluation_by 8))
       = getNotebookById Number_cell (snd (saveNotebookEvaluation Number_cell 900 db_imported 2 (evaluation_by 8))) 2
   \<and> map Notebook.idvol (notebooks (snd (saveNotebookEvaluation Number_cell 900 db_imported 2 (evaluation_by 8)))) = [None, Some 8]
   \<and> map Notebook.tema_1 (notebooks (snd (saveNotebookEvaluation Number_cell 900 db_imported 2 (evaluation_by 8)))) = [Some ''Paz'', Some ''tema'']
   \<and> map Notebook.a13 (notebooks (snd (saveNotebookEvaluation Number_cell 900 db_imported 2 (evaluation_by 8)))) = [None, Some ''ok'']
   \<and> map Notebook.conclusao_do_avaliador (notebooks (snd (saveNotebookEvaluation Number_cell 900 db_imported 2 (evaluation_by 8)))) = [None, Some ''bom'']
   \<and> map Notebook.exclusao_de_arquivos_recebidos (notebooks (snd (saveNotebookEvaluation Number_cell 900 db_imported 2 (evaluation_by 8)))) = [None, Some ''SIM'']
   \<and> map Notebook.Carimbo_de_data_hora (notebooks (snd (saveNotebookEvaluation Number_cell 900 db_imported 2 (evaluation_by 8)))) = [None, Some 900]
   \<and> map datareserva (notebooks (snd (saveNotebookEvaluation Number_cell 900 db_imported 2 (evaluation_by 8)))) = [None, None]
   \<and> fst (saveNotebookEvaluation Number_cell 900 db_imported 3 (evaluation_by 8)) = None
   \<and> snd (saveNotebookEvaluation Number_cell 900 db_imported 3 (evaluation_by 8)) = db_imported"
proof -
  have dist: "distinct (map Notebook.idcad (notebooks db_imported))"
    by (simp add: db_imported_def imported_notebook_def)
  have mem: "imported_notebook 2 \<in> set (notebooks db_imported)"
    by (simp add: db_imported_def)
  have row: "Notebook.idcad (imported_notebook 2) = 2
         \<and> Notebook.Carimbo_de_data_hora (imported_notebook 2) = None"
    by (simp add: imported_notebook_def)
  have ex: "\<exists>r\<in>set (notebooks db_imported). Notebook.idcad r = 2
         \<and> Notebook.Carimbo_de_data_hora r = None"
    using mem row by (rule bexI[rotated])
  have no: "\<not> (\<exists>r\<in>set (notebooks db_imported). Notebook.idcad r = 3
         \<and> Notebook.Carimbo_de_data_hora r = None)"
    by (simp add: db_imported_def imported_notebook_def)
  note t = saveNotebookEvaluation_conditional[OF surjective_pairing,
      of Number_cell 900 db_imported 2 "evaluation_by 8"]
  have hit: "fst (saveNotebookEvaluation Number_cell 900 db_imported 2 (evaluation_by 8)) \<noteq> None"
    using conjunct1[OF t] ex by (rule iffD2)
  note at_row = mp[OF bspec[OF mp[OF conjunct2[OF conjunct2[OF t]] dist] mem] row]
  note written = conjunct1[OF at_row]
  have reread: "fst (saveNotebookEvaluation Number_cell 900 db_imported 2 (evaluation_by 8))
       = getNotebookById Number_cell (snd (saveNotebookEvaluation Number_cell 900 db_imported 2 (evaluation_by 8))) 2"
    by (rule conjunct1[OF conjunct2[OF at_row]])
  have c0: "map Notebook.idvol (notebooks (snd (saveNotebookEvaluation Number_cell 900 db_imported 2 (evaluation_by 8)))) = [None, Some 8]"
    unfolding written by (simp add: db_imported_def imported_notebook_def evaluation_by_def)
  have c1: "map Notebook.tema_1 (notebooks (snd (saveNotebookEvaluation Number_cell 900 db_imported 2 (evaluation_by 8)))) = [Some ''Paz'', Some ''tema'']"
    unfolding written by (simp add: db_imported_def imported_notebook_def evaluation_by_def)
  have c2: "map Notebook.a13 (notebooks (snd (saveNotebookEvaluation Number_cell 900 db_imported 2 (evaluation_by 8)))) = [None, Some ''ok'']"
    unfolding written by (simp add: db_imported_def imported_notebook_def evaluation_by_def)
  have c3: "map Notebook.conclusao_do_avaliador (notebooks (snd (saveNotebookEvaluation Number_cell 900 db_imported 2 (evaluation_by 8)))) = [None, Some ''bom'']"
    unfolding written by (simp add: db_imported_def imported_notebook_def evaluation_by_def)
  have c4: "map Notebook.exclusao_de_arquivos_recebidos (notebooks (snd (saveNotebookEvaluation Number_cell 900 db_imported 2 (evaluation_by 8)))) = [None, Some ''SIM'']"
    unfolding written by (simp add: db_imported_def imported_notebook_def evaluation_by_def)
  have c5: "map Notebook.Carimbo_de_data_hora (notebooks (snd (saveNotebookEvaluation Number_cell 900 db_imported 2 (evaluation_by 8)))) = [None, Some 900]"
    unfolding written by (simp add: db_imported_def imported_notebook_def evaluation_by_def)
  have c6: "map datareserva (notebooks (snd (saveNotebookEvaluation Number_cell 900 db_imported 2 (evaluation_by 8)))) = [None, None]"
    unfolding written by (simp add: db_imported_def imported_notebook_def evaluation_by_def)
  have miss: "fst (saveNotebookEvaluation Number_cell 900 db_imported 3 (evaluation_by 8)) = None"
    using saveNotebookEvaluation_conditional[OF surjective_pairing] no by blast
  have same: "snd (saveNotebookEvaluation Number_cell 900 db_imported 3 (evaluation_by 8)) = db_imported"
    using saveNotebookEvaluation_conditional[OF surjective_pairing] miss by blast
  from dist ex hit reread c0 c1 c2 c3 c4 c5 c6 miss same show ?thesis by (intro conjI)
qed

theorem reservation_date_kept_witness:
  "1 < length (notebooks db_claimed)
   \<and> datareserva (notebooks db_claimed ! 1) \<noteq> None
   \<and> datareserva (notebooks (run [Evaluate 900 2 (evaluation_by 8), Claim 950 8 2] db_claimed) ! 1)
       = Some 100"
proof -
  have len: "1 < length (notebooks db_claimed)"
    by (simp add: example_defs)
  have res: "datareserva (notebooks db_claimed ! 1) \<noteq> None"
    by (simp add: example_defs)
  have was: "datareserva (notebooks db_claimed ! 1) = Some 100"
    by (simp add: example_defs)
  have "datareserva (notebooks (run [Evaluate 900 2 (evaluation_by 8), Claim 950 8 2] db_claimed) ! 1)
       = datareserva (notebooks db_claimed ! 1)"
    using reservation_date_kept[OF len res] by (rule conjunct1[OF conjunct2[OF conjunct2]])
  with len res was show ?thesis by simp
qed

theorem evaluated_by_submitted_volunteer_witness:
  "1 < length (notebooks db_imported)
   \<and> datareserva (notebooks db_imported ! 1) = None
   \<and> Notebook.Carimbo_de_data_hora (notebooks db_imported ! 1) = None
   \<and> Notebook.Carimbo_de_data_hora
        (notebooks (run [Claim 100 7 2, Evaluate 900 2 (evaluation_by 8)] db_imported) ! 1) \<noteq> None
   \<and> (\<exists>now e. Evaluate now (Notebook.idcad (notebooks db_imported ! 1)) e
                   \<in> set [Claim 100 7 2, Evaluate 900 2 (evaluation_by 8)]
         \<and> Notebook.idvol
              (notebooks (run [Claim 100 7 2, Evaluate 900 2 (evaluation_by 8)] db_imported) ! 1)
             = Some (EvaluateNotebookEntity.idvol e)
         \<and> Notebook.Carimbo_de_data_hora
              (notebooks (run [Claim 100 7 2, Evaluate 900 2 (evaluation_by 8)] db_imported) ! 1)
             = Some now)"
proof -
  have len: "1 < length (notebooks db_imported)"
    by (simp add: example_defs)
  have unres: "datareserva (notebooks db_imported ! 1) = None"
    by (simp add: example_defs)
  have uneval: "Notebook.Carimbo_de_data_hora (notebooks db_imported ! 1) = None"
    by (simp add: example_defs)
  have eval: "Notebook.Carimbo_de_data_hora
        (notebooks (run [Claim 100 7 2, Evaluate 900 2 (evaluation_by 8)] db_imported) ! 1) \<noteq> None"
    by (simp add: exec_state example_defs assign_values_evaluation)
  from len unres uneval eval evaluated_by_submitted_volunteer[OF len unres uneval eval]
  show ?thesis by (intro conjI)
qed

theorem evaluated_is_terminal_witness:
  "distinct (map Notebook.idcad (notebooks db_evaluated))
   \<and> notebooks db_evaluated ! 1 \<in> set (notebooks db_evaluated)
   \<and> Notebook.Carimbo_de_data_hora (notebooks db_evaluated ! 1) \<noteq> None
   \<and> reserveNotebookForVolunteer Number_cell 950 db_evaluated 8 2 = (None, db_evaluated)
   \<and> saveNotebookEvaluation Number_cell 950 db_evaluated 2 (evaluation_by 8)
       = (None, db_evaluated)
   \<and> notebooks db_evaluated ! 1
       \<in> set (notebooks (run [Claim 950 8 2, Evaluate 960 2 (evaluation_by 8)] db_evaluated))"
proof -
  have dist: "distinct (map Notebook.idcad (notebooks db_evaluated))"
    by (simp add: example_defs)
  have mem: "notebooks db_evaluated ! 1 \<in> set (notebooks db_evaluated)"
    by (simp add: example_defs)
  have ev: "Notebook.Carimbo_de_data_hora (notebooks db_evaluated ! 1) \<noteq> None"
    by (simp add: example_defs)
  have id2: "Notebook.idcad (notebooks db_evaluated ! 1) = 2"
    by (simp add: example_defs)
  note t = evaluated_is_terminal[OF dist mem ev, unfolded id2]
  have a: "reserveNotebookForVolunteer Number_cell 950 db_evaluated 8 2 = (None, db_evaluated)"
    by (rule conjunct1[OF t])
  have b: "saveNotebookEvaluation Number_cell 950 db_evaluated 2 (evaluation_by 8)
       = (None, db_evaluated)"
    by (rule conjunct1[OF conjunct2[OF t]])
  have c: "notebooks db_evaluated ! 1
       \<in> set (notebooks (run [Claim 950 8 2, Evaluate 960 2 (evaluation_by 8)] db_evaluated))"
    by (rule conjunct2[OF conjunct2[OF conjunct2[OF t]]])
  from dist mem ev a b c show ?thesis by (intro conjI)
qed

theorem listings_sound_witness:
  "getAvailableNotebooks Number_cell db_legacy \<noteq> []
   \<and> getReservedNotebooksByIdVol Number_cell db_legacy 7 \<noteq> []
   \<and> reservationDate (hd (getAvailableNotebooks Number_cell db_legacy)) = None
   \<and> evaluatedDate (hd (getAvailableNotebooks Number_cell db_legacy)) = None
   \<and> NotebookEntity.idvol (hd (getReservedNotebooksByIdVol Number_cell db_legacy 7)) = Some 7"
proof -
  have a: "getAvailableNotebooks Number_cell db_legacy \<noteq> []"
    by (simp add: getAvailableNotebooks_def Notebook_findAll_def example_defs)
  have r: "getReservedNotebooksByIdVol Number_cell db_legacy 7 \<noteq> []"
    by (simp add: getReservedNotebooksByIdVol_def Notebook_findAll_def example_defs)
  note t = listings_sound[of Number_cell db_legacy 7]
  have 1: "reservationDate (hd (getAvailableNotebooks Number_cell db_legacy)) = None
         \<and> evaluatedDate (hd (getAvailableNotebooks Number_cell db_legacy)) = None"
    using bspec[OF conjunct1[OF t] hd_in_set[OF a]] by fast
  have 2: "NotebookEntity.idvol (hd (getReservedNotebooksByIdVol Number_cell db_legacy 7)) = Some 7"
    using bspec[OF conjunct2[OF t] hd_in_set[OF r]] by fast
  from a r conjunct1[OF 1] conjunct2[OF 1] 2 show ?thesis by (intro conjI)
qed

theorem reserve_outcomes_witness:
  "NotebookAPI_reserveNotebookForVolunteer NotebookEntity.idcad Number_cell 100 db_imported
      \<lparr>ReserveNotebookDataEntity.idvol = 9, notebookId = 1\<rparr>
     = (Inl (ApiError 412 (VolunteerError ''VOLUNTEER_NOT_FOUND''
               ''Volunteer with id 9 not found'')), db_imported)
   \<and> NotebookAPI_reserveNotebookForVolunteer NotebookEntity.idcad Number_cell 100 db_imported
      \<lparr>ReserveNotebookDataEntity.idvol = 7, notebookId = 15\<rparr>
     = (Inl (ApiError 404 (NotebookError ''NOTEBOOK_NOT_FOUND''
               ''Notebook with id 15 not found'')), db_imported)
   \<and> NotebookAPI_reserveNotebookForVolunteer NotebookEntity.idcad Number_cell 100 db_claimed
      \<lparr>ReserveNotebookDataEntity.idvol = 8, notebookId = 2\<rparr>
     = (Inl (ApiError 400 (NotebookError ''NOTEBOOK_ALREADY_RESERVED_ERROR''
               ''Notebook already reserved or already evaluated'')), db_claimed)
   \<and> NotebookAPI_reserveNotebookForVolunteer NotebookEntity.idcad Number_cell 100 db_imported
      \<lparr>ReserveNotebookDataEntity.idvol = 7, notebookId = 2\<rparr>
     = (Inr 2, db_claimed)"
  unfolding reserve_outcomes
  by (simp add: repository_defs example_defs Let_def entity_of_row String_int_def
        String_nat.simps)

end
